theory Spec2Isabelle
  imports Complex_Main
begin

section \<open>Numbers and vectors\<close>

text \<open>
  \<^verbatim>\<open>chemkit::Real\<close> is a binary floating-point type. Its values are modelled as
  not-a-number, the two infinities and the finite values. Arithmetic on finite values is
  idealised to exact real arithmetic (rounding, overflow and signed zeros are not modelled);
  not-a-number and the infinities follow the IEEE rules. Every comparison with not-a-number
  is false.
\<close>

datatype Real = NaN | MInf | Fin real | PInf

fun isnan :: "Real \<Rightarrow> bool" where
  "isnan NaN = True"
| "isnan _ = False"

fun fneg :: "Real \<Rightarrow> Real" where
  "fneg NaN = NaN"
| "fneg MInf = PInf"
| "fneg PInf = MInf"
| "fneg (Fin a) = Fin (- a)"

fun fabs :: "Real \<Rightarrow> Real" where
  "fabs NaN = NaN"
| "fabs MInf = PInf"
| "fabs PInf = PInf"
| "fabs (Fin a) = Fin \<bar>a\<bar>"

fun fadd :: "Real \<Rightarrow> Real \<Rightarrow> Real" where
  "fadd NaN _ = NaN"
| "fadd _ NaN = NaN"
| "fadd PInf MInf = NaN"
| "fadd MInf PInf = NaN"
| "fadd PInf _ = PInf"
| "fadd _ PInf = PInf"
| "fadd MInf _ = MInf"
| "fadd _ MInf = MInf"
| "fadd (Fin a) (Fin b) = Fin (a + b)"

definition fsub :: "Real \<Rightarrow> Real \<Rightarrow> Real" where
  "fsub a b = fadd a (fneg b)"

fun fmul :: "Real \<Rightarrow> Real \<Rightarrow> Real" where
  "fmul NaN _ = NaN"
| "fmul _ NaN = NaN"
| "fmul (Fin a) (Fin b) = Fin (a * b)"
| "fmul (Fin a) PInf = (if a = 0 then NaN else if 0 < a then PInf else MInf)"
| "fmul (Fin a) MInf = (if a = 0 then NaN else if 0 < a then MInf else PInf)"
| "fmul PInf (Fin b) = (if b = 0 then NaN else if 0 < b then PInf else MInf)"
| "fmul MInf (Fin b) = (if b = 0 then NaN else if 0 < b then MInf else PInf)"
| "fmul PInf PInf = PInf"
| "fmul MInf MInf = PInf"
| "fmul PInf MInf = MInf"
| "fmul MInf PInf = MInf"

text \<open>The comparison \<^verbatim>\<open>a < b\<close>; \<^verbatim>\<open>a > b\<close> is \<open>flt b a\<close>.\<close>

fun flt :: "Real \<Rightarrow> Real \<Rightarrow> bool" where
  "flt (Fin a) (Fin b) = (a < b)"
| "flt MInf (Fin b) = True"
| "flt MInf PInf = True"
| "flt (Fin a) PInf = True"
| "flt _ _ = False"


text \<open>\<^verbatim>\<open>Vector3\<close> and \<^verbatim>\<open>Point3\<close> are three-component vectors.\<close>

type_synonym Vector3 = "Real \<times> Real \<times> Real"
type_synonym Point3 = "Real \<times> Real \<times> Real"

fun vneg :: "Vector3 \<Rightarrow> Vector3" where
  "vneg (x, y, z) = (fneg x, fneg y, fneg z)"

fun vscale :: "Vector3 \<Rightarrow> Real \<Rightarrow> Vector3" where
  "vscale (x, y, z) k = (fmul x k, fmul y k, fmul z k)"

fun vadd :: "Point3 \<Rightarrow> Vector3 \<Rightarrow> Point3" where
  "vadd (x, y, z) (u, v, w) = (fadd x u, fadd y v, fadd z w)"

text \<open>A vector of length one: what \<^verbatim>\<open>normalized()\<close> returns for a non-zero vector.\<close>

fun unit_length :: "Vector3 \<Rightarrow> bool" where
  "unit_length (Fin x, Fin y, Fin z) = (x * x + y * y + z * z = 1)"
| "unit_length _ = False"

definition zero3 :: Vector3 where
  "zero3 = (Fin 0, Fin 0, Fin 0)"

section \<open>Collaborators: coordinates, molecule, force field\<close>

text \<open>
  \<^verbatim>\<open>CartesianCoordinates\<close> is an array of points. The optimizer uses three things of a
  \<^verbatim>\<open>Molecule\<close>: its size, its coordinates (\<^verbatim>\<open>coordinates()\<close>) and the position of each
  atom (\<^verbatim>\<open>atom(i)->setPosition\<close>); the molecule is the list of its atoms' positions.
\<close>

type_synonym CartesianCoordinates = "Point3 list"

record Molecule =
  atomPositions :: "Point3 list"

text \<open>
  A \<^verbatim>\<open>ForceField\<close> that has been given its molecule: the four member functions the
  optimizer calls. They are taken as functions of the coordinates passed to them.
\<close>

record ForceField =
  atomCount :: nat
  energy :: "CartesianCoordinates \<Rightarrow> Real"
  gradient :: "CartesianCoordinates \<Rightarrow> Vector3 list"
  rmsg :: "CartesianCoordinates \<Rightarrow> Real"

text \<open>
  \<^verbatim>\<open>ForceField::create(name)\<close> looks the name up in the plugin registry and returns a null
  pointer for an unknown name. A registered plugin, given the molecule
  (\<^verbatim>\<open>setMolecule\<close>) and set up (\<^verbatim>\<open>setup()\<close>), yields the result of \<^verbatim>\<open>setup()\<close> and the force
  field object as it is afterwards.
\<close>

type_synonym ForceFieldPlugin = "Molecule \<Rightarrow> bool \<times> ForceField"
type_synonym Registry = "string \<Rightarrow> ForceFieldPlugin option"

text \<open>
  Indexing an array outside its bounds is undefined behaviour in the source; the model
  makes it a fault.
\<close>

datatype fault = OutOfRange

section \<open>The optimizer's state\<close>

text \<open>
  \<^verbatim>\<open>MoleculeGeometryOptimizerPrivate\<close>. The pointers are options (\<open>None\<close> is the null
  pointer); \<open>d_molecule\<close> holds the molecule pointed to, so that writing an atom's
  position is an update of this field. \<open>randomCalls\<close> is not a member of the class: it is
  the state of the global random generator behind \<^verbatim>\<open>Vector3::Random()\<close>, the number of
  vectors drawn so far.
\<close>

record MoleculeGeometryOptimizerPrivate =
  d_molecule :: "Molecule option"
  d_forceField :: "ForceField option"
  d_forceFieldName :: string
  d_errorString :: string
  d_coordinates :: CartesianCoordinates
  randomCalls :: nat

definition MoleculeGeometryOptimizer ::
  "Molecule option \<Rightarrow> nat \<Rightarrow> MoleculeGeometryOptimizerPrivate" where
  "MoleculeGeometryOptimizer molecule seed =
     \<lparr>d_molecule = molecule, d_forceField = None, d_forceFieldName = ''uff'',
      d_errorString = [], d_coordinates = [], randomCalls = seed\<rparr>"

definition setMolecule ::
  "Molecule option \<Rightarrow> MoleculeGeometryOptimizerPrivate \<Rightarrow> MoleculeGeometryOptimizerPrivate" where
  "setMolecule molecule d =
     (if molecule \<noteq> d_molecule d then d\<lparr>d_molecule := molecule\<rparr> else d)"

definition setForceField ::
  "string \<Rightarrow> MoleculeGeometryOptimizerPrivate \<Rightarrow> bool \<times> MoleculeGeometryOptimizerPrivate" where
  "setForceField forceField d = (True, d\<lparr>d_forceFieldName := forceField\<rparr>)"

definition forceField :: "MoleculeGeometryOptimizerPrivate \<Rightarrow> string" where
  "forceField d = d_forceFieldName d"

definition errorString :: "MoleculeGeometryOptimizerPrivate \<Rightarrow> string" where
  "errorString d = d_errorString d"

text \<open>The member function \<^verbatim>\<open>energy()\<close> (the name \<open>energy\<close> is the force field's).\<close>

definition optimizer_energy :: "MoleculeGeometryOptimizerPrivate \<Rightarrow> Real" where
  "optimizer_energy d =
     (case d_forceField d of
        None \<Rightarrow> Fin 0
      | Some ff \<Rightarrow> energy ff (d_coordinates d))"

text \<open>The member function \<^verbatim>\<open>setup()\<close>.\<close>

definition optimizer_setup ::
  "Registry \<Rightarrow> MoleculeGeometryOptimizerPrivate \<Rightarrow> bool \<times> MoleculeGeometryOptimizerPrivate" where
  "optimizer_setup create d =
     (case d_molecule d of
        None \<Rightarrow> (False, d\<lparr>d_errorString := ''No molecule specified''\<rparr>)
      | Some m \<Rightarrow>
          (case create (d_forceFieldName d) of
             None \<Rightarrow>
               (False, d\<lparr>d_forceField := None,
                         d_errorString := ''Force field '' @ [CHR 0x27] @ d_forceFieldName d
                                            @ [CHR 0x27] @ '' is not supported.''\<rparr>)
           | Some plugin \<Rightarrow>
               (let (ok, ff) = plugin m in
                if \<not> ok
                then (False, d\<lparr>d_forceField := Some ff,
                               d_errorString := ''Failed to setup force field.''\<rparr>)
                else (True, d\<lparr>d_forceField := Some ff,
                              d_coordinates := atomPositions m\<rparr>))))"

section \<open>The line search of \<^verbatim>\<open>step()\<close>\<close>

text \<open>
  A loop \<^verbatim>\<open>for(atomIndex = 0; atomIndex < n; atomIndex++)\<close> over the atoms: the body is run
  at each index in turn and the first fault ends the loop.
\<close>

fun forAtoms :: "(nat \<Rightarrow> 's \<Rightarrow> fault + 's) \<Rightarrow> nat list \<Rightarrow> 's \<Rightarrow> fault + 's" where
  "forAtoms body [] s = Inr s"
| "forAtoms body (atomIndex # rest) s =
     (case body atomIndex s of
        Inl e \<Rightarrow> Inl e
      | Inr s' \<Rightarrow> forAtoms body rest s')"

text \<open>\<^verbatim>\<open>d->coordinates[atomIndex] += -gradient[atomIndex] * step\<close>\<close>

definition moveAtom ::
  "Vector3 list \<Rightarrow> Real \<Rightarrow> nat \<Rightarrow> CartesianCoordinates \<Rightarrow> fault + CartesianCoordinates" where
  "moveAtom grad step atomIndex coordinates =
     (if atomIndex < length coordinates \<and> atomIndex < length grad
      then Inr (coordinates[atomIndex :=
                  vadd (coordinates ! atomIndex) (vscale (vneg (grad ! atomIndex)) step)])
      else Inl OutOfRange)"

definition moveAtoms ::
  "ForceField \<Rightarrow> Vector3 list \<Rightarrow> Real \<Rightarrow> CartesianCoordinates \<Rightarrow> fault + CartesianCoordinates" where
  "moveAtoms ff grad step coordinates =
     forAtoms (moveAtom grad step) [0..<atomCount ff] coordinates"

text \<open>
  The body of the loop of the not-a-number branch. \<open>random n\<close> is the value of the
  \<open>n\<close>-th evaluation of \<^verbatim>\<open>Vector3::Random().normalized()\<close>; the loop works on the
  coordinates and the number of vectors drawn.
\<close>

definition wiggleAtom ::
  "(nat \<Rightarrow> Vector3) \<Rightarrow> CartesianCoordinates \<Rightarrow> nat \<Rightarrow> CartesianCoordinates \<times> nat
     \<Rightarrow> fault + CartesianCoordinates \<times> nat" where
  "wiggleAtom random initialCoordinates atomIndex cr =
     (case cr of (coordinates, calls) \<Rightarrow>
        if atomIndex < length initialCoordinates \<and> atomIndex < length coordinates
        then Inr (coordinates[atomIndex := vadd (initialCoordinates ! atomIndex) (random calls)],
                  Suc calls)
        else Inl OutOfRange)"

definition wiggleAtoms ::
  "ForceField \<Rightarrow> (nat \<Rightarrow> Vector3) \<Rightarrow> CartesianCoordinates \<Rightarrow> CartesianCoordinates \<times> nat
     \<Rightarrow> fault + CartesianCoordinates \<times> nat" where
  "wiggleAtoms ff random initialCoordinates cr =
     forAtoms (wiggleAtom random initialCoordinates) [0..<atomCount ff] cr"

text \<open>
  The variables of \<^verbatim>\<open>step()\<close> that live across the iterations of its loop. \<open>ls_moves\<close> is
  auxiliary (no variable of the source): it counts the executions of the loop that moves
  the atoms.
\<close>

record LoopState =
  ls_coordinates :: CartesianCoordinates
  ls_gradient :: "Vector3 list"
  ls_step :: Real
  ls_initialEnergy :: Real
  ls_randomCalls :: nat
  ls_moves :: nat

definition stepConv :: Real where
  "stepConv = Fin (1 / 100000)"

definition stepCount :: int where
  "stepCount = 10"

definition converganceValue :: Real where
  "converganceValue = Fin (1 / 10)"

text \<open>
  One iteration of the line search. The boolean of the result is \<open>True\<close> when the
  iteration leaves the loop through \<^verbatim>\<open>break\<close>.
\<close>

definition iteration ::
  "ForceField \<Rightarrow> (nat \<Rightarrow> Vector3) \<Rightarrow> LoopState \<Rightarrow> fault + bool \<times> LoopState" where
  "iteration ff random ls =
     (let initialCoordinates = ls_coordinates ls in
      case moveAtoms ff (ls_gradient ls) (ls_step ls) (ls_coordinates ls) of
        Inl e \<Rightarrow> Inl e
      | Inr moved \<Rightarrow>
          (let ls1 = ls\<lparr>ls_coordinates := moved, ls_moves := Suc (ls_moves ls)\<rparr>;
               finalEnergy = energy ff moved
           in
           if isnan finalEnergy then
             (case wiggleAtoms ff random initialCoordinates (moved, ls_randomCalls ls) of
                Inl e \<Rightarrow> Inl e
              | Inr (wiggled, calls) \<Rightarrow>
                  Inr (False, ls1\<lparr>ls_coordinates := wiggled,
                                   ls_randomCalls := calls,
                                   ls_gradient := gradient ff wiggled\<rparr>))
           else if flt finalEnergy (ls_initialEnergy ls)
                   \<and> flt (fabs (fsub finalEnergy (ls_initialEnergy ls))) stepConv then
             Inr (True, ls1)
           else if flt finalEnergy (ls_initialEnergy ls) then
             (let step2 = fmul (ls_step ls) (Fin 2) in
              Inr (False, ls1\<lparr>ls_step := (if flt (Fin 1) step2 then Fin 1 else step2),
                               ls_initialEnergy := finalEnergy\<rparr>))
           else if flt (ls_initialEnergy ls) finalEnergy then
             Inr (False, ls1\<lparr>ls_coordinates := initialCoordinates,
                              ls_step := fmul (ls_step ls) (Fin (1 / 10))\<rparr>)
           else Inr (False, ls1)))"

function lineSearch ::
  "ForceField \<Rightarrow> (nat \<Rightarrow> Vector3) \<Rightarrow> int \<Rightarrow> LoopState \<Rightarrow> fault + LoopState" where
  "lineSearch ff random i ls =
     (if i < stepCount then
        (case iteration ff random ls of
           Inl e \<Rightarrow> Inl e
         | Inr (brk, ls') \<Rightarrow> if brk then Inr ls' else lineSearch ff random (i + 1) ls')
      else Inr ls)"
  by pat_completeness auto
termination
  by (relation "measure (\<lambda>(ff, random, i, ls). nat (stepCount - i))") auto

text \<open>The state of the loop when \<^verbatim>\<open>step()\<close> enters it.\<close>

definition lineSearchStart :: "ForceField \<Rightarrow> MoleculeGeometryOptimizerPrivate \<Rightarrow> LoopState" where
  "lineSearchStart ff d =
     \<lparr>ls_coordinates = d_coordinates d,
      ls_gradient = gradient ff (d_coordinates d),
      ls_step = Fin (5 / 100),
      ls_initialEnergy = energy ff (d_coordinates d),
      ls_randomCalls = randomCalls d,
      ls_moves = 0\<rparr>"

definition step ::
  "(nat \<Rightarrow> Vector3) \<Rightarrow> MoleculeGeometryOptimizerPrivate
     \<Rightarrow> fault + bool \<times> MoleculeGeometryOptimizerPrivate" where
  "step random d =
     (if d_molecule d = None \<or> d_forceField d = None then Inr (False, d)
      else
        (let ff = the (d_forceField d) in
         case lineSearch ff random 0 (lineSearchStart ff d) of
           Inl e \<Rightarrow> Inl e
         | Inr ls \<Rightarrow>
             (let d' = d\<lparr>d_coordinates := ls_coordinates ls,
                          randomCalls := ls_randomCalls ls\<rparr>
              in Inr (flt (rmsg ff (d_coordinates d')) converganceValue, d'))))"

section \<open>The driver\<close>

text \<open>\<^verbatim>\<open>d->molecule->atom(i)->setPosition(d->coordinates.position(i))\<close>\<close>

definition writeAtom :: "CartesianCoordinates \<Rightarrow> nat \<Rightarrow> Molecule \<Rightarrow> fault + Molecule" where
  "writeAtom coordinates i m =
     (if i < length coordinates \<and> i < length (atomPositions m)
      then Inr (m\<lparr>atomPositions := (atomPositions m)[i := coordinates ! i]\<rparr>)
      else Inl OutOfRange)"

definition writeCoordinates ::
  "MoleculeGeometryOptimizerPrivate \<Rightarrow> fault + MoleculeGeometryOptimizerPrivate" where
  "writeCoordinates d =
     (if d_molecule d = None \<or> d_forceField d = None then Inr d
      else
        (let m = the (d_molecule d) in
         case forAtoms (writeAtom (d_coordinates d)) [0..<length (atomPositions m)] m of
           Inl e \<Rightarrow> Inl e
         | Inr m' \<Rightarrow> Inr (d\<lparr>d_molecule := Some m'\<rparr>)))"

text \<open>
  The loop \<^verbatim>\<open>while(!done){ done = step(); }\<close> of \<^verbatim>\<open>optimize()\<close>. Nothing bounds the number
  of its iterations: \<open>None\<close> is the loop that never ends.
\<close>

partial_function (option) stepUntilDone ::
  "(nat \<Rightarrow> Vector3) \<Rightarrow> MoleculeGeometryOptimizerPrivate
     \<Rightarrow> (fault + MoleculeGeometryOptimizerPrivate) option" where
  "stepUntilDone random d =
     (case step random d of
        Inl e \<Rightarrow> Some (Inl e)
      | Inr (done, d') \<Rightarrow> if done then Some (Inr d') else stepUntilDone random d')"

definition optimize ::
  "Registry \<Rightarrow> (nat \<Rightarrow> Vector3) \<Rightarrow> MoleculeGeometryOptimizerPrivate
     \<Rightarrow> (fault + bool \<times> MoleculeGeometryOptimizerPrivate) option" where
  "optimize create random d =
     (case optimizer_setup create d of
        (False, d') \<Rightarrow> Some (Inr (False, d'))
      | (True, d1) \<Rightarrow>
          (case stepUntilDone random d1 of
             None \<Rightarrow> None
           | Some (Inl e) \<Rightarrow> Some (Inl e)
           | Some (Inr d2) \<Rightarrow>
               (case writeCoordinates d2 of
                  Inl e \<Rightarrow> Some (Inl e)
                | Inr d3 \<Rightarrow> Some (Inr (True, d3)))))"

text \<open>The static \<^verbatim>\<open>optimizeCoordinates(molecule)\<close>: a fresh optimizer, then \<^verbatim>\<open>optimize()\<close>.\<close>

definition optimizeCoordinates ::
  "Registry \<Rightarrow> (nat \<Rightarrow> Vector3) \<Rightarrow> nat \<Rightarrow> Molecule option
     \<Rightarrow> (fault + bool \<times> MoleculeGeometryOptimizerPrivate) option" where
  "optimizeCoordinates create random seed molecule =
     optimize create random (MoleculeGeometryOptimizer molecule seed)"

text \<open>
  The first \<open>n\<close> turns of the loop of \<^verbatim>\<open>optimize()\<close>, used to speak about the single
  calls of \<^verbatim>\<open>step()\<close> the loop makes: \<open>n\<close> calls in a row, each on the state the one before
  left, ending early at the first call that reports convergence. The result \<open>(False, d')\<close>
  says that all \<open>n\<close> calls were made, none reported convergence and \<open>d'\<close> is the state
  after them.
\<close>

fun stepN ::
  "(nat \<Rightarrow> Vector3) \<Rightarrow> nat \<Rightarrow> MoleculeGeometryOptimizerPrivate
     \<Rightarrow> fault + bool \<times> MoleculeGeometryOptimizerPrivate" where
  "stepN random 0 d = Inr (False, d)"
| "stepN random (Suc n) d =
     (case step random d of
        Inl e \<Rightarrow> Inl e
      | Inr (done, d') \<Rightarrow> if done then Inr (True, d') else stepN random n d')"

section \<open>Range conditions and test fixtures\<close>

text \<open>
  The force field fits coordinates of \<open>n\<close> atoms: it does not count more atoms than
  there are coordinates, and its gradient has a vector for each atom it counts. It is what
  keeps the loops over \<^verbatim>\<open>atomCount()\<close> inside the arrays.
\<close>

definition fits :: "ForceField \<Rightarrow> nat \<Rightarrow> bool" where
  "fits ff n =
     (atomCount ff \<le> n \<and> (\<forall>c. length c = n \<longrightarrow> atomCount ff \<le> length (gradient ff c)))"

text \<open>The first coordinate of the first atom.\<close>

fun x0 :: "CartesianCoordinates \<Rightarrow> Real" where
  "x0 [] = NaN"
| "x0 ((x, y, z) # rest) = x"

text \<open>
  One atom in a linear potential \<open>E = - x / 20\<close>: the gradient is the constant
  \<open>(- 1/20, 0, 0)\<close> and its root mean square is \<open>1/20\<close> everywhere.
\<close>

definition slopeField :: ForceField where
  "slopeField =
     \<lparr>atomCount = 1,
      energy = (\<lambda>c. fmul (Fin (- (1 / 20))) (x0 c)),
      gradient = (\<lambda>c. [(Fin (- (1 / 20)), Fin 0, Fin 0)]),
      rmsg = (\<lambda>c. Fin (1 / 20))\<rparr>"

text \<open>One atom in a stiff harmonic potential \<open>E = 50 x\<^sup>2\<close>.\<close>

definition harmonicField :: ForceField where
  "harmonicField =
     \<lparr>atomCount = 1,
      energy = (\<lambda>c. fmul (Fin 50) (fmul (x0 c) (x0 c))),
      gradient = (\<lambda>c. [(fmul (Fin 100) (x0 c), Fin 0, Fin 0)]),
      rmsg = (\<lambda>c. fabs (fmul (Fin 100) (x0 c)))\<rparr>"

text \<open>One atom whose energy is a number at the origin only.\<close>

definition explodingField :: ForceField where
  "explodingField =
     \<lparr>atomCount = 1,
      energy = (\<lambda>c. if x0 c = Fin 0 then Fin 0 else NaN),
      gradient = (\<lambda>c. [(Fin 1, Fin 0, Fin 0)]),
      rmsg = (\<lambda>c. Fin 1)\<rparr>"

text \<open>A force field with no atoms and the constant energy 5.\<close>

definition constantField :: ForceField where
  "constantField =
     \<lparr>atomCount = 0,
      energy = (\<lambda>c. Fin 5),
      gradient = (\<lambda>c. []),
      rmsg = (\<lambda>c. Fin 0)\<rparr>"

text \<open>
  A registry with three plugins: \<open>uff\<close> and \<open>harmonic\<close>, whose \<^verbatim>\<open>setup()\<close> succeeds,
  and \<open>broken\<close>, whose \<^verbatim>\<open>setup()\<close> fails.
\<close>

definition uffPlugin :: ForceFieldPlugin where
  "uffPlugin = (\<lambda>m. (True, slopeField))"

definition harmonicPlugin :: ForceFieldPlugin where
  "harmonicPlugin = (\<lambda>m. (True, harmonicField))"

definition brokenPlugin :: ForceFieldPlugin where
  "brokenPlugin = (\<lambda>m. (False, constantField))"

definition testRegistry :: Registry where
  "testRegistry name =
     (if name = ''uff'' then Some uffPlugin
      else if name = ''harmonic'' then Some harmonicPlugin
      else if name = ''broken'' then Some brokenPlugin
      else None)"

definition atOrigin :: Molecule where
  "atOrigin = \<lparr>atomPositions = [(Fin 0, Fin 0, Fin 0)]\<rparr>"

definition atOne :: Molecule where
  "atOne = \<lparr>atomPositions = [(Fin 1, Fin 0, Fin 0)]\<rparr>"

text \<open>A random source that always draws the unit vector along the first axis.\<close>

definition alongX :: "nat \<Rightarrow> Vector3" where
  "alongX = (\<lambda>n. (Fin 1, Fin 0, Fin 0))"

text \<open>The loop of \<^verbatim>\<open>step()\<close> as it starts for the harmonic potential with the atom at 1.\<close>

definition harmonicStart :: LoopState where
  "harmonicStart =
     \<lparr>ls_coordinates = [(Fin 1, Fin 0, Fin 0)], ls_gradient = [(Fin 100, Fin 0, Fin 0)],
      ls_step = Fin (5 / 100), ls_initialEnergy = Fin 50, ls_randomCalls = 0, ls_moves = 0\<rparr>"

definition harmonicSession :: MoleculeGeometryOptimizerPrivate where
  "harmonicSession =
     \<lparr>d_molecule = Some atOne, d_forceField = Some harmonicField, d_forceFieldName = ''uff'',
      d_errorString = [], d_coordinates = [(Fin 1, Fin 0, Fin 0)], randomCalls = 0\<rparr>"

text \<open>
  Sessions on the linear potential: a new optimizer for the atom at the origin, the state
  after its \<^verbatim>\<open>optimize()\<close>, and the state after a second \<^verbatim>\<open>optimize()\<close>.
\<close>

definition freshSession :: MoleculeGeometryOptimizerPrivate where
  "freshSession = MoleculeGeometryOptimizer (Some atOrigin) 0"

definition convergedOnce :: MoleculeGeometryOptimizerPrivate where
  "convergedOnce =
     \<lparr>d_molecule = Some \<lparr>atomPositions = [(Fin (131 / 400), Fin 0, Fin 0)]\<rparr>,
      d_forceField = Some slopeField, d_forceFieldName = ''uff'', d_errorString = [],
      d_coordinates = [(Fin (131 / 400), Fin 0, Fin 0)], randomCalls = 0\<rparr>"

definition convergedTwice :: MoleculeGeometryOptimizerPrivate where
  "convergedTwice =
     \<lparr>d_molecule = Some \<lparr>atomPositions = [(Fin (131 / 200), Fin 0, Fin 0)]\<rparr>,
      d_forceField = Some slopeField, d_forceFieldName = ''uff'', d_errorString = [],
      d_coordinates = [(Fin (131 / 200), Fin 0, Fin 0)], randomCalls = 0\<rparr>"

text \<open>An optimizer for the atom at the origin, the minimum of the harmonic potential.\<close>

definition restingSession :: MoleculeGeometryOptimizerPrivate where
  "restingSession =
     \<lparr>d_molecule = Some atOrigin, d_forceField = None, d_forceFieldName = ''harmonic'',
      d_errorString = [], d_coordinates = [], randomCalls = 0\<rparr>"

text \<open>The calls that repair a session before \<^verbatim>\<open>setup()\<close> is tried again.\<close>

definition retried :: "MoleculeGeometryOptimizerPrivate \<Rightarrow> MoleculeGeometryOptimizerPrivate" where
  "retried d = snd (setForceField ''uff'' (setMolecule (Some atOrigin) d))"

text \<open>
  One atom in the harmonic potential \<open>E = x\<^sup>2 / 2\<close>: gradient \<open>(x, 0, 0)\<close>, root mean
  square gradient \<open>|x|\<close>. From \<open>x = 100\<close> the first \<^verbatim>\<open>step()\<close> ends at 0.68 and the second
  at 0.004624.
\<close>

definition springField :: ForceField where
  "springField =
     \<lparr>atomCount = 1,
      energy = (\<lambda>c. fmul (Fin (1 / 2)) (fmul (x0 c) (x0 c))),
      gradient = (\<lambda>c. [(x0 c, Fin 0, Fin 0)]),
      rmsg = (\<lambda>c. fabs (x0 c))\<rparr>"

definition springPlugin :: ForceFieldPlugin where
  "springPlugin = (\<lambda>m. (True, springField))"

definition springRegistry :: Registry where
  "springRegistry name = (if name = ''uff'' then Some springPlugin else None)"

definition atHundred :: Molecule where
  "atHundred = \<lparr>atomPositions = [(Fin 100, Fin 0, Fin 0)]\<rparr>"

definition springSession :: "Real \<Rightarrow> MoleculeGeometryOptimizerPrivate" where
  "springSession x =
     \<lparr>d_molecule = Some atHundred, d_forceField = Some springField, d_forceFieldName = ''uff'',
      d_errorString = [], d_coordinates = [(x, Fin 0, Fin 0)], randomCalls = 0\<rparr>"

definition springDone :: MoleculeGeometryOptimizerPrivate where
  "springDone =
     \<lparr>d_molecule = Some \<lparr>atomPositions = [(Fin (289 / 62500), Fin 0, Fin 0)]\<rparr>,
      d_forceField = Some springField, d_forceFieldName = ''uff'',
      d_errorString = [], d_coordinates = [(Fin (289 / 62500), Fin 0, Fin 0)], randomCalls = 0\<rparr>"

section \<open>Basic facts\<close>

declare lineSearch.simps [simp del]

lemma flt_irrefl: "\<not> flt a a"
  by (cases a) simp_all

lemma flt_asym: "flt a b \<Longrightarrow> \<not> flt b a"
  by (cases a; cases b) simp_all

lemma flt_not_nan: "flt a b \<Longrightarrow> \<not> isnan a \<and> \<not> isnan b"
  by (cases a; cases b) simp_all


lemma fadd_zero: "fadd a (Fin 0) = a"
  by (cases a) simp_all

lemma vadd_zero3: "vadd p zero3 = p"
  by (cases p) (simp add: zero3_def fadd_zero)

lemma vscale_vneg_zero3: "vscale (vneg zero3) (Fin r) = zero3"
  by (simp add: zero3_def)

lemma forAtoms_append:
  "forAtoms body (xs @ ys) s =
     (case forAtoms body xs s of Inl e \<Rightarrow> Inl e | Inr s' \<Rightarrow> forAtoms body ys s')"
  by (induction xs arbitrary: s) (auto split: sum.splits)

lemma forAtoms_moveAtom:
  "n \<le> length c \<Longrightarrow> n \<le> length g \<Longrightarrow>
   \<exists>c'. forAtoms (moveAtom g st) [0..<n] c = Inr c' \<and> length c' = length c
      \<and> (\<forall>i<n. c' ! i = vadd (c ! i) (vscale (vneg (g ! i)) st))
      \<and> (\<forall>i. n \<le> i \<longrightarrow> c' ! i = c ! i)"
proof (induction n)
  case 0
  then show ?case by simp
next
  case (Suc n)
  then obtain c1 where c1: "forAtoms (moveAtom g st) [0..<n] c = Inr c1"
    "length c1 = length c"
    "\<forall>i<n. c1 ! i = vadd (c ! i) (vscale (vneg (g ! i)) st)"
    "\<forall>i. n \<le> i \<longrightarrow> c1 ! i = c ! i"
    by auto
  let ?c2 = "c1[n := vadd (c1 ! n) (vscale (vneg (g ! n)) st)]"
  have run: "forAtoms (moveAtom g st) [0..<Suc n] c = Inr ?c2"
    using c1 Suc.prems by (simp add: forAtoms_append moveAtom_def)
  have "\<forall>i<Suc n. ?c2 ! i = vadd (c ! i) (vscale (vneg (g ! i)) st)"
    using c1 Suc.prems by (auto simp: nth_list_update less_Suc_eq)
  moreover have "\<forall>i. Suc n \<le> i \<longrightarrow> ?c2 ! i = c ! i"
    using c1 by (auto simp: nth_list_update)
  ultimately show ?case using run c1 by simp
qed

lemma forAtoms_wiggleAtom:
  "n \<le> length init \<Longrightarrow> n \<le> length c \<Longrightarrow>
   \<exists>c'. forAtoms (wiggleAtom random init) [0..<n] (c, k) = Inr (c', k + n)
      \<and> length c' = length c
      \<and> (\<forall>i<n. c' ! i = vadd (init ! i) (random (k + i)))
      \<and> (\<forall>i. n \<le> i \<longrightarrow> c' ! i = c ! i)"
proof (induction n)
  case 0
  then show ?case by simp
next
  case (Suc n)
  then obtain c1 where c1: "forAtoms (wiggleAtom random init) [0..<n] (c, k) = Inr (c1, k + n)"
    "length c1 = length c"
    "\<forall>i<n. c1 ! i = vadd (init ! i) (random (k + i))"
    "\<forall>i. n \<le> i \<longrightarrow> c1 ! i = c ! i"
    by auto
  let ?c2 = "c1[n := vadd (init ! n) (random (k + n))]"
  have run: "forAtoms (wiggleAtom random init) [0..<Suc n] (c, k) = Inr (?c2, k + Suc n)"
    using c1 Suc.prems by (simp add: forAtoms_append wiggleAtom_def)
  have "\<forall>i<Suc n. ?c2 ! i = vadd (init ! i) (random (k + i))"
    using c1 Suc.prems by (auto simp: nth_list_update less_Suc_eq)
  moreover have "\<forall>i. Suc n \<le> i \<longrightarrow> ?c2 ! i = c ! i"
    using c1 by (auto simp: nth_list_update)
  ultimately show ?case using run c1 by simp
qed

lemma forAtoms_writeAtom:
  "n \<le> length c \<Longrightarrow> n \<le> length (atomPositions m) \<Longrightarrow>
   \<exists>m'. forAtoms (writeAtom c) [0..<n] m = Inr m'
      \<and> atomPositions m' = take n c @ drop n (atomPositions m)"
proof (induction n)
  case 0
  then show ?case by simp
next
  case (Suc n)
  then obtain m1 where m1: "forAtoms (writeAtom c) [0..<n] m = Inr m1"
    "atomPositions m1 = take n c @ drop n (atomPositions m)"
    by auto
  have len: "length (atomPositions m1) = length (atomPositions m)"
    using m1 Suc.prems by simp
  let ?m2 = "m1\<lparr>atomPositions := (atomPositions m1)[n := c ! n]\<rparr>"
  have run: "forAtoms (writeAtom c) [0..<Suc n] m = Inr ?m2"
    using m1 Suc.prems len by (simp add: forAtoms_append writeAtom_def)
  have "atomPositions ?m2 = take (Suc n) c @ drop (Suc n) (atomPositions m)"
    using m1 Suc.prems
    by (simp add: take_Suc_conv_app_nth list_update_append Cons_nth_drop_Suc [symmetric])
  then show ?case using run by blast
qed

section \<open>One iteration of the line search\<close>

lemma moveAtoms_fits:
  assumes "atomCount ff \<le> length c" and "atomCount ff \<le> length g"
  shows "\<exists>c'. moveAtoms ff g st c = Inr c' \<and> length c' = length c
      \<and> (\<forall>i<atomCount ff. c' ! i = vadd (c ! i) (vscale (vneg (g ! i)) st))
      \<and> (\<forall>i. atomCount ff \<le> i \<longrightarrow> c' ! i = c ! i)"
  unfolding moveAtoms_def using forAtoms_moveAtom [OF assms] .

lemma wiggleAtoms_fits:
  assumes "atomCount ff \<le> length init" and "atomCount ff \<le> length c"
  shows "\<exists>c'. wiggleAtoms ff random init (c, k) = Inr (c', k + atomCount ff)
      \<and> length c' = length c
      \<and> (\<forall>i<atomCount ff. c' ! i = vadd (init ! i) (random (k + i)))
      \<and> (\<forall>i. atomCount ff \<le> i \<longrightarrow> c' ! i = c ! i)"
  unfolding wiggleAtoms_def using forAtoms_wiggleAtom [OF assms] .

lemma forAtoms_moveAtom_length:
  "forAtoms (moveAtom g st) xs c = Inr c' \<Longrightarrow> length c' = length c"
proof (induction xs arbitrary: c)
  case Nil
  then show ?case by simp
next
  case (Cons i xs)
  then show ?case
    by (auto simp: moveAtom_def split: if_splits)
qed

lemma moveAtoms_length: "moveAtoms ff g st c = Inr c' \<Longrightarrow> length c' = length c"
  unfolding moveAtoms_def by (rule forAtoms_moveAtom_length)

lemma forAtoms_wiggleAtom_length:
  "forAtoms (wiggleAtom random init) xs ck = Inr ck' \<Longrightarrow> length (fst ck') = length (fst ck)"
proof (induction xs arbitrary: ck)
  case Nil
  then show ?case by simp
next
  case (Cons i xs)
  then show ?case
    by (cases ck) (auto simp: wiggleAtom_def split: if_splits)
qed

lemma wiggleAtoms_length:
  "wiggleAtoms ff random init (c, k) = Inr (c', k') \<Longrightarrow> length c' = length c"
  unfolding wiggleAtoms_def using forAtoms_wiggleAtom_length [of random init _ "(c, k)" "(c', k')"]
  by simp

text \<open>
  C2. One iteration of the line search whose moved coordinates have a not-a-number energy
  (the indices staying in range, the random source drawing unit vectors): the iteration
  does not leave the loop and is no fault; each atom the force field counts is put at its
  position from before the move plus one unit vector, the next vector drawn from the random
  source; the gradient is the force field's gradient at these new coordinates; the step
  size and the initial energy are as they were.
\<close>

theorem iteration_nan_wiggles:
  assumes len: "atomCount ff \<le> length (ls_coordinates ls)"
    and moved: "moveAtoms ff (ls_gradient ls) (ls_step ls) (ls_coordinates ls) = Inr moved"
    and nan: "isnan (energy ff moved)"
    and unit: "\<forall>n. unit_length (random n)"
  shows "\<exists>ls'. iteration ff random ls = Inr (False, ls')
      \<and> length (ls_coordinates ls') = length (ls_coordinates ls)
      \<and> (\<forall>i<atomCount ff. \<exists>u. unit_length u
            \<and> ls_coordinates ls' ! i = vadd (ls_coordinates ls ! i) u)
      \<and> (\<forall>i<atomCount ff.
            ls_coordinates ls' ! i = vadd (ls_coordinates ls ! i) (random (ls_randomCalls ls + i)))
      \<and> ls_gradient ls' = gradient ff (ls_coordinates ls')
      \<and> ls_step ls' = ls_step ls
      \<and> ls_initialEnergy ls' = ls_initialEnergy ls"
proof -
  have lm: "length moved = length (ls_coordinates ls)"
    using moved by (rule moveAtoms_length)
  from wiggleAtoms_fits [of ff "ls_coordinates ls" moved random "ls_randomCalls ls"] len lm
  obtain w where w: "wiggleAtoms ff random (ls_coordinates ls) (moved, ls_randomCalls ls)
        = Inr (w, ls_randomCalls ls + atomCount ff)"
      "length w = length moved"
      "\<forall>i<atomCount ff. w ! i = vadd (ls_coordinates ls ! i) (random (ls_randomCalls ls + i))"
    by auto
  let ?ls' = "ls\<lparr>ls_coordinates := w, ls_moves := Suc (ls_moves ls),
                 ls_randomCalls := ls_randomCalls ls + atomCount ff,
                 ls_gradient := gradient ff w\<rparr>"
  have "iteration ff random ls = Inr (False, ?ls')"
    using moved nan w(1) by (simp add: iteration_def)
  moreover have "\<forall>i<atomCount ff. \<exists>u. unit_length u
            \<and> ls_coordinates ?ls' ! i = vadd (ls_coordinates ls ! i) u"
  proof (intro allI impI)
    fix i
    assume "i < atomCount ff"
    then have "ls_coordinates ?ls' ! i
        = vadd (ls_coordinates ls ! i) (random (ls_randomCalls ls + i))"
      using w(3) by simp
    with unit show "\<exists>u. unit_length u
            \<and> ls_coordinates ?ls' ! i = vadd (ls_coordinates ls ! i) u"
      by blast
  qed
  ultimately show ?thesis using w lm by auto
qed

theorem iteration_nan_wiggles_witness:
  "\<exists>ls'. iteration explodingField alongX (lineSearchStart explodingField
              (snd (optimizer_setup testRegistry (MoleculeGeometryOptimizer (Some atOrigin) 0))))
            = Inr (False, ls')
      \<and> ls_coordinates ls' ! 0 = (Fin 1, Fin 0, Fin 0)
      \<and> ls_step ls' = Fin (5 / 100)
      \<and> ls_initialEnergy ls' = Fin 0"
proof -
  let ?ls = "lineSearchStart explodingField
              (snd (optimizer_setup testRegistry (MoleculeGeometryOptimizer (Some atOrigin) 0)))"
  have 1: "atomCount explodingField \<le> length (ls_coordinates ?ls)"
    by (simp add: lineSearchStart_def optimizer_setup_def MoleculeGeometryOptimizer_def
        testRegistry_def uffPlugin_def atOrigin_def explodingField_def alongX_def)
  have 2: "moveAtoms explodingField (ls_gradient ?ls) (ls_step ?ls) (ls_coordinates ?ls)
      = Inr [(Fin (- (1 / 20)), Fin 0, Fin 0)]"
    by (simp add: lineSearchStart_def optimizer_setup_def MoleculeGeometryOptimizer_def
        testRegistry_def uffPlugin_def atOrigin_def explodingField_def alongX_def moveAtoms_def moveAtom_def)
  have 3: "isnan (energy explodingField [(Fin (- (1 / 20)), Fin 0, Fin 0)])"
    by (simp add: lineSearchStart_def optimizer_setup_def MoleculeGeometryOptimizer_def
        testRegistry_def uffPlugin_def atOrigin_def explodingField_def alongX_def)
  have 4: "\<forall>n. unit_length (alongX n)"
    by (simp add: lineSearchStart_def optimizer_setup_def MoleculeGeometryOptimizer_def
        testRegistry_def uffPlugin_def atOrigin_def explodingField_def alongX_def)
  from iteration_nan_wiggles [OF 1 2 3 4]
  show ?thesis
    by (auto simp: lineSearchStart_def optimizer_setup_def MoleculeGeometryOptimizer_def
        testRegistry_def uffPlugin_def atOrigin_def explodingField_def alongX_def)
qed



lemma iteration_rejection:
  assumes moved: "moveAtoms ff (ls_gradient ls) (ls_step ls) (ls_coordinates ls) = Inr moved"
    and more: "flt (ls_initialEnergy ls) (energy ff moved)"
  shows "\<exists>ls'. iteration ff random ls = Inr (False, ls')
      \<and> ls_coordinates ls' = ls_coordinates ls
      \<and> ls_step ls' = fmul (ls_step ls) (Fin (1 / 10))
      \<and> ls_initialEnergy ls' = ls_initialEnergy ls
      \<and> ls_gradient ls' = ls_gradient ls"
proof -
  have nn: "\<not> isnan (energy ff moved)"
    using more flt_not_nan by blast
  have "\<not> flt (energy ff moved) (ls_initialEnergy ls)"
    using more flt_asym by blast
  then show ?thesis
    using moved more nn by (simp add: iteration_def Let_def)
qed

section \<open>The whole line search\<close>

lemma iteration_Inr:
  assumes "iteration ff random ls = Inr (brk, ls')"
  shows "\<exists>moved. moveAtoms ff (ls_gradient ls) (ls_step ls) (ls_coordinates ls) = Inr moved
     \<and> ((\<exists>w k. isnan (energy ff moved)
            \<and> wiggleAtoms ff random (ls_coordinates ls) (moved, ls_randomCalls ls) = Inr (w, k)
            \<and> \<not> brk
            \<and> ls' = ls\<lparr>ls_coordinates := w, ls_moves := Suc (ls_moves ls),
                         ls_randomCalls := k, ls_gradient := gradient ff w\<rparr>)
        \<or> (brk \<and> ls' = ls\<lparr>ls_coordinates := moved, ls_moves := Suc (ls_moves ls)\<rparr>)
        \<or> (\<not> brk \<and> ls' = ls\<lparr>ls_coordinates := moved, ls_moves := Suc (ls_moves ls),
               ls_step := (if flt (Fin 1) (fmul (ls_step ls) (Fin 2)) then Fin 1
                           else fmul (ls_step ls) (Fin 2)),
               ls_initialEnergy := energy ff moved\<rparr>)
        \<or> (\<not> brk \<and> ls' = ls\<lparr>ls_coordinates := ls_coordinates ls,
               ls_moves := Suc (ls_moves ls),
               ls_step := fmul (ls_step ls) (Fin (1 / 10))\<rparr>)
        \<or> (\<not> brk \<and> ls' = ls\<lparr>ls_coordinates := moved, ls_moves := Suc (ls_moves ls)\<rparr>))"
proof (cases "moveAtoms ff (ls_gradient ls) (ls_step ls) (ls_coordinates ls)")
  case (Inl e)
  with assms show ?thesis by (simp add: iteration_def)
next
  case (Inr moved)
  show ?thesis
  proof (cases "isnan (energy ff moved)")
    case True
    with Inr assms show ?thesis
      by (cases "wiggleAtoms ff random (ls_coordinates ls) (moved, ls_randomCalls ls)")
        (auto simp: iteration_def)
  next
    case False
    with Inr assms show ?thesis
      by (auto simp: iteration_def Let_def split: if_splits)
  qed
qed

lemma iteration_length:
  assumes "iteration ff random ls = Inr (brk, ls')"
  shows "length (ls_coordinates ls') = length (ls_coordinates ls)"
proof -
  from iteration_Inr [OF assms] obtain moved where
    m: "moveAtoms ff (ls_gradient ls) (ls_step ls) (ls_coordinates ls) = Inr moved"
    and c: "(\<exists>w k. wiggleAtoms ff random (ls_coordinates ls) (moved, ls_randomCalls ls) = Inr (w, k)
              \<and> ls_coordinates ls' = w)
          \<or> ls_coordinates ls' = moved \<or> ls_coordinates ls' = ls_coordinates ls"
    by auto
  have "length moved = length (ls_coordinates ls)"
    using m by (rule moveAtoms_length)
  with c show ?thesis
    by (auto dest: wiggleAtoms_length)
qed

lemma lineSearch_length:
  "lineSearch ff random i ls = Inr ls' \<Longrightarrow>
   length (ls_coordinates ls') = length (ls_coordinates ls)"
proof (induction ff random i ls rule: lineSearch.induct)
  case (1 ff random i ls)
  show ?case
  proof (cases "i < stepCount")
    case False
    with "1.prems" show ?thesis by (simp add: lineSearch.simps)
  next
    case True
    from True "1.prems" obtain brk ls1 where it: "iteration ff random ls = Inr (brk, ls1)"
      by (auto simp: lineSearch.simps [of ff random i ls] split: sum.splits)
    have l1: "length (ls_coordinates ls1) = length (ls_coordinates ls)"
      using it by (rule iteration_length)
    show ?thesis
    proof (cases brk)
      case True
      with \<open>i < stepCount\<close> it "1.prems" have "ls' = ls1"
        by (simp add: lineSearch.simps [of ff random i ls])
      with l1 show ?thesis by simp
    next
      case False
      with \<open>i < stepCount\<close> it "1.prems" have "lineSearch ff random (i + 1) ls1 = Inr ls'"
        by (simp add: lineSearch.simps [of ff random i ls])
      with "1.IH" [OF \<open>i < stepCount\<close> it refl False] l1 show ?thesis by simp
    qed
  qed
qed

lemma iteration_step_range:
  assumes it: "iteration ff random ls = Inr (brk, ls')" and r: "ls_step ls = Fin r"
    and pos: "0 < r" and le: "r \<le> 1"
  shows "\<exists>r'. ls_step ls' = Fin r' \<and> r / 10 \<le> r' \<and> r' \<le> 1"
proof -
  from iteration_Inr [OF it]
  have "ls_step ls' = ls_step ls
      \<or> ls_step ls' = (if flt (Fin 1) (fmul (ls_step ls) (Fin 2)) then Fin 1
                        else fmul (ls_step ls) (Fin 2))
      \<or> ls_step ls' = fmul (ls_step ls) (Fin (1 / 10))"
    by auto
  then have "ls_step ls' = Fin r \<or> ls_step ls' = Fin (min 1 (2 * r)) \<or> ls_step ls' = Fin (r / 10)"
    using r by (auto simp: min_def)
  with pos le show ?thesis
    by (auto simp: min_def)
qed

lemma lineSearch_step_floor:
  "lineSearch ff random i ls = Inr ls' \<Longrightarrow> 0 \<le> i \<Longrightarrow> i \<le> 10 \<Longrightarrow>
   ls_step ls = Fin r \<Longrightarrow> (1 / 20) * (1 / 10) ^ nat i \<le> r \<Longrightarrow> r \<le> 1 \<Longrightarrow>
   \<exists>r'. ls_step ls' = Fin r' \<and> (1 / 20) * (1 / 10) ^ 10 \<le> r' \<and> r' \<le> 1"
proof (induction ff random i ls arbitrary: r rule: lineSearch.induct)
  case (1 ff random i ls)
  show ?case
  proof (cases "i < stepCount")
    case False
    with "1.prems" have "ls' = ls" "i = 10"
      by (simp_all add: lineSearch.simps [of ff random i ls] stepCount_def)
    with "1.prems" show ?thesis by simp
  next
    case True
    from True "1.prems" obtain brk ls1 where it: "iteration ff random ls = Inr (brk, ls1)"
      by (auto simp: lineSearch.simps [of ff random i ls] split: sum.splits)
    have i9: "i + 1 \<le> 10" using True by (simp add: stepCount_def)
    have rpos: "0 < r"
    proof -
      have "(0::real) < (1 / 20) * (1 / 10) ^ nat i" by simp
      with "1.prems" show ?thesis by linarith
    qed
    from iteration_step_range [OF it \<open>ls_step ls = Fin r\<close> rpos \<open>r \<le> 1\<close>]
    obtain r1 where r1: "ls_step ls1 = Fin r1" "r / 10 \<le> r1" "r1 \<le> 1"
      by blast
    have nat_i: "nat (i + 1) = Suc (nat i)"
      using \<open>0 \<le> i\<close> by simp
    have low: "(1 / 20) * (1 / 10) ^ nat (i + 1) \<le> r1"
    proof -
      have "(1 / 20) * (1 / 10) ^ nat (i + 1) = ((1 / 20) * (1 / 10) ^ nat i) / (10::real)"
        by (simp add: nat_i)
      also have "\<dots> \<le> r / 10"
        using "1.prems" by simp
      finally show ?thesis using r1 by linarith
    qed
    show ?thesis
    proof (cases brk)
      case True
      with \<open>i < stepCount\<close> it "1.prems" have eq: "ls' = ls1"
        by (simp add: lineSearch.simps [of ff random i ls])
      have "nat (i + 1) \<le> 10" using i9 by simp
      then have "(1 / 10 :: real) ^ 10 \<le> (1 / 10) ^ nat (i + 1)"
        by (intro power_decreasing) simp_all
      then have "(1 / 20) * (1 / 10 :: real) ^ 10 \<le> (1 / 20) * (1 / 10) ^ nat (i + 1)"
        by (rule mult_left_mono) simp
      then have "(1 / 20) * (1 / 10 :: real) ^ 10 \<le> r1"
        using low by (rule order_trans)
      with r1 eq show ?thesis by blast
    next
      case False
      with \<open>i < stepCount\<close> it "1.prems" have rec: "lineSearch ff random (i + 1) ls1 = Inr ls'"
        by (simp add: lineSearch.simps [of ff random i ls])
      from "1.IH" [OF \<open>i < stepCount\<close> it refl False rec _ i9 r1(1) low r1(3)] \<open>0 \<le> i\<close>
      show ?thesis by simp
    qed
  qed
qed

lemmas run_defs = lineSearch.simps iteration_def moveAtoms_def moveAtom_def wiggleAtoms_def
  wiggleAtom_def stepCount_def stepConv_def fsub_def Let_def

lemma lineSearch_harmonic_atOne:
  "lineSearch harmonicField alongX 0
     \<lparr>ls_coordinates = [(Fin 1, Fin 0, Fin 0)], ls_gradient = [(Fin 100, Fin 0, Fin 0)],
      ls_step = Fin (5 / 100), ls_initialEnergy = Fin 50, ls_randomCalls = 0, ls_moves = 0\<rparr>
   = Inr \<lparr>ls_coordinates = [(Fin (- (1 / 2)), Fin 0, Fin 0)],
        ls_gradient = [(Fin 100, Fin 0, Fin 0)],
        ls_step = Fin (1 / 1000000000), ls_initialEnergy = Fin (25 / 2),
        ls_randomCalls = 0, ls_moves = 10\<rparr>"
  by (simp add: run_defs harmonicField_def)

lemma lineSearch_slope_atOrigin:
  "lineSearch slopeField random 0
     \<lparr>ls_coordinates = [(Fin 0, Fin 0, Fin 0)], ls_gradient = [(Fin (- (1 / 20)), Fin 0, Fin 0)],
      ls_step = Fin (5 / 100), ls_initialEnergy = Fin 0, ls_randomCalls = k, ls_moves = 0\<rparr>
   = Inr \<lparr>ls_coordinates = [(Fin (131 / 400), Fin 0, Fin 0)],
        ls_gradient = [(Fin (- (1 / 20)), Fin 0, Fin 0)], ls_step = Fin 1,
        ls_initialEnergy = Fin (- (131 / 8000)), ls_randomCalls = k,
        ls_moves = 10\<rparr>"
  by (simp add: run_defs slopeField_def)

text \<open>
  C4, as stated, fails: the step size of a line search cannot come arbitrarily close to
  zero. The loop starts at 0.05 and runs ten times at most, so no line search of
  \<^verbatim>\<open>step()\<close>, for any force field, random source and state, ends with a step size below
  \<open>1e-12\<close>.
\<close>

theorem step_size_arbitrarily_small_counterexample:
  "\<not> (\<exists>ff random d ls'.
        lineSearch ff random 0 (lineSearchStart ff d) = Inr ls'
        \<and> flt (ls_step ls') (Fin (1 / 10 ^ 12)))"
proof
  assume "\<exists>ff random d ls'.
        lineSearch ff random 0 (lineSearchStart ff d) = Inr ls'
        \<and> flt (ls_step ls') (Fin (1 / 10 ^ 12))"
  then obtain ff random d ls' where
    run: "lineSearch ff random 0 (lineSearchStart ff d) = Inr ls'"
    and small: "flt (ls_step ls') (Fin (1 / 10 ^ 12))"
    by blast
  have "ls_step (lineSearchStart ff d) = Fin (1 / 20)"
    by (simp add: lineSearchStart_def)
  from lineSearch_step_floor [OF run _ _ this]
  obtain r' where r': "ls_step ls' = Fin r'" "(1 / 20) * (1 / 10) ^ 10 \<le> r'"
    by auto
  have "(1 / 10 ^ 12 :: real) \<le> (1 / 20) * (1 / 10) ^ 10"
    by (simp add: power_divide)
  then have "1 / 10 ^ 12 \<le> r'"
    using r'(2) by (rule order_trans)
  moreover from small r'(1) have "r' < 1 / 10 ^ 12"
    by simp
  ultimately show False by linarith
qed

text \<open>
  C4, amended. One iteration whose moved coordinates have an energy above the initial
  energy: the loop goes on with the coordinates from before the move, the step size
  multiplied by 0.1 and the initial energy as it was. Nothing in the code is a floor for the
  step size, but every line search of \<^verbatim>\<open>step()\<close> ends with a step size of at least
  \<open>0.05 * 0.1 ^ 10\<close>, because it starts at 0.05 and runs ten times at most.
\<close>

theorem rejection_restores_and_shrinks:
  assumes moved: "moveAtoms ff (ls_gradient ls) (ls_step ls) (ls_coordinates ls) = Inr moved"
    and more: "flt (ls_initialEnergy ls) (energy ff moved)"
    and run: "lineSearch ff2 random2 0 (lineSearchStart ff2 d) = Inr ls2"
  shows "(\<exists>ls'. iteration ff random ls = Inr (False, ls')
          \<and> ls_coordinates ls' = ls_coordinates ls
          \<and> ls_step ls' = fmul (ls_step ls) (Fin (1 / 10))
          \<and> (\<forall>r. ls_step ls = Fin r \<longrightarrow> ls_step ls' = Fin (r / 10))
          \<and> ls_initialEnergy ls' = ls_initialEnergy ls)
      \<and> (\<exists>r. ls_step ls2 = Fin r \<and> (1 / 20) * (1 / 10) ^ 10 \<le> r)"
proof -
  from iteration_rejection [OF moved more, of random]
  obtain ls' where ls': "iteration ff random ls = Inr (False, ls')"
    "ls_coordinates ls' = ls_coordinates ls"
    "ls_step ls' = fmul (ls_step ls) (Fin (1 / 10))"
    "ls_initialEnergy ls' = ls_initialEnergy ls"
    by blast
  have "\<forall>r. ls_step ls = Fin r \<longrightarrow> ls_step ls' = Fin (r / 10)"
    using ls'(3) by simp
  moreover
  have "ls_step (lineSearchStart ff2 d) = Fin (1 / 20)"
    by (simp add: lineSearchStart_def)
  from lineSearch_step_floor [OF run _ _ this]
  have "\<exists>r. ls_step ls2 = Fin r \<and> (1 / 20) * (1 / 10) ^ 10 \<le> r"
    by auto
  ultimately show ?thesis using ls' by blast
qed

theorem rejection_restores_and_shrinks_witness:
  "(\<exists>ls'. iteration harmonicField alongX harmonicStart = Inr (False, ls')
          \<and> ls_coordinates ls' = [(Fin 1, Fin 0, Fin 0)]
          \<and> ls_step ls' = Fin (1 / 200)
          \<and> ls_initialEnergy ls' = Fin 50)
   \<and> lineSearch harmonicField alongX 0 (lineSearchStart harmonicField harmonicSession)
       = Inr \<lparr>ls_coordinates = [(Fin (- (1 / 2)), Fin 0, Fin 0)],
        ls_gradient = [(Fin 100, Fin 0, Fin 0)],
        ls_step = Fin (1 / 1000000000), ls_initialEnergy = Fin (25 / 2),
        ls_randomCalls = 0, ls_moves = 10\<rparr>
   \<and> (1 / 20) * (1 / 10) ^ 10 \<le> (1 / 1000000000 :: real)"
proof -
  have 1: "moveAtoms harmonicField (ls_gradient harmonicStart) (ls_step harmonicStart)
      (ls_coordinates harmonicStart) = Inr [(Fin (- 4), Fin 0, Fin 0)]"
    by (simp add: harmonicStart_def harmonicField_def moveAtoms_def moveAtom_def)
  have 2: "flt (ls_initialEnergy harmonicStart) (energy harmonicField [(Fin (- 4), Fin 0, Fin 0)])"
    by (simp add: harmonicStart_def harmonicField_def)
  have 3: "lineSearch harmonicField alongX 0 (lineSearchStart harmonicField harmonicSession)
       = Inr \<lparr>ls_coordinates = [(Fin (- (1 / 2)), Fin 0, Fin 0)],
        ls_gradient = [(Fin 100, Fin 0, Fin 0)],
        ls_step = Fin (1 / 1000000000), ls_initialEnergy = Fin (25 / 2),
        ls_randomCalls = 0, ls_moves = 10\<rparr>"
    using lineSearch_harmonic_atOne
    by (simp add: lineSearchStart_def harmonicSession_def harmonicField_def)
  from rejection_restores_and_shrinks [OF 1 2 3, of alongX] 3
  show ?thesis
    by (auto simp: harmonicStart_def)
qed

lemma iteration_fits:
  assumes fits: "fits ff n" and len: "length (ls_coordinates ls) = n"
    and glen: "atomCount ff \<le> length (ls_gradient ls)"
  shows "\<exists>brk ls'. iteration ff random ls = Inr (brk, ls')
      \<and> length (ls_coordinates ls') = n
      \<and> atomCount ff \<le> length (ls_gradient ls')
      \<and> ls_moves ls' = Suc (ls_moves ls)"
proof -
  have ac: "atomCount ff \<le> length (ls_coordinates ls)"
    using fits len by (simp add: fits_def)
  from moveAtoms_fits [OF ac glen, of "ls_step ls"]
  obtain moved where moved:
    "moveAtoms ff (ls_gradient ls) (ls_step ls) (ls_coordinates ls) = Inr moved"
    "length moved = length (ls_coordinates ls)"
    by blast
  show ?thesis
  proof (cases "isnan (energy ff moved)")
    case True
    from wiggleAtoms_fits [of ff "ls_coordinates ls" moved random "ls_randomCalls ls"] ac moved(2)
    obtain w where w: "wiggleAtoms ff random (ls_coordinates ls) (moved, ls_randomCalls ls)
        = Inr (w, ls_randomCalls ls + atomCount ff)" "length w = length moved"
      by auto
    have "atomCount ff \<le> length (gradient ff w)"
      using fits w(2) moved(2) len by (simp add: fits_def)
    with True moved w len show ?thesis
      by (auto simp: iteration_def)
  next
    case False
    with moved len glen show ?thesis
      by (auto simp: iteration_def Let_def)
  qed
qed

lemma lineSearch_fits:
  "fits ff n \<Longrightarrow> length (ls_coordinates ls) = n \<Longrightarrow> atomCount ff \<le> length (ls_gradient ls) \<Longrightarrow>
   i \<le> 10 \<Longrightarrow>
   \<exists>ls'. lineSearch ff random i ls = Inr ls' \<and> length (ls_coordinates ls') = n
      \<and> int (ls_moves ls') \<le> int (ls_moves ls) + (10 - i)"
proof (induction ff random i ls rule: lineSearch.induct)
  case (1 ff random i ls)
  show ?case
  proof (cases "i < stepCount")
    case False
    then have "lineSearch ff random i ls = Inr ls"
      by (simp add: lineSearch.simps [of ff random i ls])
    moreover have "i = 10"
      using False "1.prems" by (simp add: stepCount_def)
    ultimately show ?thesis
      using "1.prems" by simp
  next
    case True
    from iteration_fits [OF "1.prems"(1-3), of random]
    obtain brk ls1 where it: "iteration ff random ls = Inr (brk, ls1)"
      and l1: "length (ls_coordinates ls1) = n" "atomCount ff \<le> length (ls_gradient ls1)"
      and m1: "ls_moves ls1 = Suc (ls_moves ls)"
      by blast
    have i9: "i + 1 \<le> 10" using True by (simp add: stepCount_def)
    show ?thesis
    proof (cases brk)
      case True
      with \<open>i < stepCount\<close> it l1 m1 i9 show ?thesis
        by (simp add: lineSearch.simps [of ff random i ls])
    next
      case False
      from "1.IH" [OF \<open>i < stepCount\<close> it refl False "1.prems"(1) l1 i9]
      obtain ls' where "lineSearch ff random (i + 1) ls1 = Inr ls'"
        "length (ls_coordinates ls') = n"
        "int (ls_moves ls') \<le> int (ls_moves ls1) + (10 - (i + 1))"
        by blast
      with \<open>i < stepCount\<close> it False m1 show ?thesis
        by (simp add: lineSearch.simps [of ff random i ls])
    qed
  qed
qed

text \<open>
  C5. The loop of any \<^verbatim>\<open>step()\<close> starts with the step size 0.05, whatever the state (the
  state of the optimizer has no step size to carry over). Without a molecule or a force
  field \<^verbatim>\<open>step()\<close> returns false at once. With a molecule and a force field that fits the
  coordinates, the line search ends without a fault after at most 10 moves of the atoms,
  and \<^verbatim>\<open>step()\<close> returns: its result is whether the root mean square gradient at the
  coordinates the line search ended with is below \<open>converganceValue\<close>.
\<close>

theorem step_bounded:
  "ls_step (lineSearchStart ff2 d2) = Fin (5 / 100)
   \<and> (d_molecule d = None \<or> d_forceField d = None \<longrightarrow> step random d = Inr (False, d))
   \<and> (d_molecule d \<noteq> None \<and> d_forceField d = Some ff \<and> fits ff (length (d_coordinates d)) \<longrightarrow>
        (\<exists>ls. lineSearch ff random 0 (lineSearchStart ff d) = Inr ls
            \<and> ls_moves ls \<le> 10
            \<and> step random d =
                Inr (flt (rmsg ff (ls_coordinates ls)) converganceValue,
                     d\<lparr>d_coordinates := ls_coordinates ls, randomCalls := ls_randomCalls ls\<rparr>)))"
proof (intro conjI impI)
  show "ls_step (lineSearchStart ff2 d2) = Fin (5 / 100)"
    by (simp add: lineSearchStart_def)
next
  assume "d_molecule d = None \<or> d_forceField d = None"
  then show "step random d = Inr (False, d)"
    by (simp add: step_def)
next
  assume a: "d_molecule d \<noteq> None \<and> d_forceField d = Some ff \<and> fits ff (length (d_coordinates d))"
  then have fits: "fits ff (length (d_coordinates d))" by simp
  have g: "atomCount ff \<le> length (ls_gradient (lineSearchStart ff d))"
    using fits by (simp add: fits_def lineSearchStart_def)
  have c: "length (ls_coordinates (lineSearchStart ff d)) = length (d_coordinates d)"
    by (simp add: lineSearchStart_def)
  from lineSearch_fits [OF fits c g, of 0 random]
  obtain ls where ls: "lineSearch ff random 0 (lineSearchStart ff d) = Inr ls"
    "int (ls_moves ls) \<le> int (ls_moves (lineSearchStart ff d)) + 10"
    by auto
  have "ls_moves ls \<le> 10"
    using ls(2) by (simp add: lineSearchStart_def)
  moreover have "step random d =
      Inr (flt (rmsg ff (ls_coordinates ls)) converganceValue,
           d\<lparr>d_coordinates := ls_coordinates ls, randomCalls := ls_randomCalls ls\<rparr>)"
    using a ls(1) by (auto simp: step_def)
  ultimately show "\<exists>ls. lineSearch ff random 0 (lineSearchStart ff d) = Inr ls
            \<and> ls_moves ls \<le> 10
            \<and> step random d =
                Inr (flt (rmsg ff (ls_coordinates ls)) converganceValue,
                     d\<lparr>d_coordinates := ls_coordinates ls, randomCalls := ls_randomCalls ls\<rparr>)"
    using ls(1) by blast
qed

theorem step_bounded_witness:
  "step alongX freshSession = Inr (False, freshSession)
   \<and> step alongX harmonicSession =
     Inr (False, harmonicSession\<lparr>d_coordinates := [(Fin (- (1 / 2)), Fin 0, Fin 0)]\<rparr>)
   \<and> (\<exists>ls. lineSearch harmonicField alongX 0 (lineSearchStart harmonicField harmonicSession) = Inr ls
         \<and> ls_moves ls \<le> 10)"
proof -
  have 0: "d_molecule freshSession = None \<or> d_forceField freshSession = None"
    by (simp add: freshSession_def MoleculeGeometryOptimizer_def)
  have 1: "d_molecule harmonicSession \<noteq> None \<and> d_forceField harmonicSession = Some harmonicField
      \<and> fits harmonicField (length (d_coordinates harmonicSession))"
    by (simp add: harmonicSession_def harmonicField_def fits_def)
  have 4: "lineSearch harmonicField alongX 0 (lineSearchStart harmonicField harmonicSession)
       = Inr \<lparr>ls_coordinates = [(Fin (- (1 / 2)), Fin 0, Fin 0)],
        ls_gradient = [(Fin 100, Fin 0, Fin 0)],
        ls_step = Fin (1 / 1000000000), ls_initialEnergy = Fin (25 / 2),
        ls_randomCalls = 0, ls_moves = 10\<rparr>"
    using lineSearch_harmonic_atOne
    by (simp add: lineSearchStart_def harmonicSession_def harmonicField_def)
  from step_bounded [of _ _ freshSession alongX] 0
  have a: "step alongX freshSession = Inr (False, freshSession)"
    by blast
  from step_bounded [of _ _ harmonicSession alongX harmonicField] 1
  obtain ls where ls: "lineSearch harmonicField alongX 0
      (lineSearchStart harmonicField harmonicSession) = Inr ls"
    "ls_moves ls \<le> 10"
    "step alongX harmonicSession =
                Inr (flt (rmsg harmonicField (ls_coordinates ls)) converganceValue,
                     harmonicSession\<lparr>d_coordinates := ls_coordinates ls,
                       randomCalls := ls_randomCalls ls\<rparr>)"
    by blast
  from ls(1) 4 have "ls = \<lparr>ls_coordinates = [(Fin (- (1 / 2)), Fin 0, Fin 0)],
        ls_gradient = [(Fin 100, Fin 0, Fin 0)],
        ls_step = Fin (1 / 1000000000), ls_initialEnergy = Fin (25 / 2),
        ls_randomCalls = 0, ls_moves = 10\<rparr>"
    by simp
  with ls(3) have b: "step alongX harmonicSession =
     Inr (False, harmonicSession\<lparr>d_coordinates := [(Fin (- (1 / 2)), Fin 0, Fin 0)]\<rparr>)"
    by (simp add: harmonicSession_def harmonicField_def converganceValue_def)
  from a b ls(1,2) show ?thesis by blast
qed

section \<open>The driver: \<^verbatim>\<open>optimize()\<close>\<close>

lemma step_molecule:
  "step random d = Inr (b, d') \<Longrightarrow>
   d_molecule d' = d_molecule d \<and> d_forceField d' = d_forceField d
   \<and> d_forceFieldName d' = d_forceFieldName d \<and> d_errorString d' = d_errorString d"
  by (auto simp: step_def Let_def split: if_splits sum.splits)

lemma step_Inr:
  assumes st: "step random d = Inr (b, d')"
    and mol: "d_molecule d \<noteq> None" and ff: "d_forceField d = Some ff"
  shows "length (d_coordinates d') = length (d_coordinates d)
     \<and> b = flt (rmsg ff (d_coordinates d')) converganceValue"
proof -
  from st mol ff obtain ls where ls: "lineSearch ff random 0 (lineSearchStart ff d) = Inr ls"
    and d': "d' = d\<lparr>d_coordinates := ls_coordinates ls, randomCalls := ls_randomCalls ls\<rparr>"
    and b: "b = flt (rmsg ff (ls_coordinates ls)) converganceValue"
    by (auto simp: step_def Let_def split: sum.splits)
  from lineSearch_length [OF ls] d' b show ?thesis
    by (simp add: lineSearchStart_def)
qed

lemma stepUntilDone_converged:
  assumes "stepUntilDone random d = Some (Inr d2)"
  shows "d_molecule d \<noteq> None \<Longrightarrow> d_forceField d = Some ff \<Longrightarrow>
     d_molecule d2 = d_molecule d \<and> d_forceField d2 = Some ff
     \<and> d_forceFieldName d2 = d_forceFieldName d \<and> d_errorString d2 = d_errorString d
     \<and> length (d_coordinates d2) = length (d_coordinates d)
     \<and> flt (rmsg ff (d_coordinates d2)) converganceValue"
  using assms
proof (induction random d "Inr d2 :: fault + MoleculeGeometryOptimizerPrivate"
    rule: stepUntilDone.raw_induct[rotated 1, consumes 1])
  case (1 loop random d)
  from "1.hyps"(2) obtain b d1 where st: "step random d = Inr (b, d1)"
    by (auto split: sum.splits)
  note m = step_molecule [OF st]
  note s = step_Inr [OF st "1.prems"]
  show ?case
  proof (cases b)
    case True
    with st "1.hyps"(2) have "d2 = d1" by simp
    with m s True "1.prems" show ?thesis by simp
  next
    case False
    with st "1.hyps"(2) have rec: "loop random d1 = Some (Inr d2)" by simp
    have "d_molecule d1 \<noteq> None" "d_forceField d1 = Some ff"
      using m "1.prems" by simp_all
    from "1.hyps"(1) [OF rec this] m s show ?thesis by simp
  qed
qed

lemma writeCoordinates_fits:
  assumes mol: "d_molecule d = Some m" and ff: "d_forceField d \<noteq> None"
    and len: "length (d_coordinates d) = length (atomPositions m)"
  shows "writeCoordinates d = Inr (d\<lparr>d_molecule := Some (m\<lparr>atomPositions := d_coordinates d\<rparr>)\<rparr>)"
proof -
  from forAtoms_writeAtom [of "length (atomPositions m)" "d_coordinates d" m] len
  obtain m' where m': "forAtoms (writeAtom (d_coordinates d)) [0..<length (atomPositions m)] m = Inr m'"
    "atomPositions m' = d_coordinates d"
    by auto
  have "m' = m\<lparr>atomPositions := d_coordinates d\<rparr>"
    using m'(2) by simp
  with m'(1) mol ff show ?thesis
    by (auto simp: writeCoordinates_def)
qed

lemma optimizer_setup_True:
  assumes "optimizer_setup create d = (True, d1)"
  shows "\<exists>m plugin ff. d_molecule d = Some m \<and> create (d_forceFieldName d) = Some plugin
     \<and> plugin m = (True, ff)
     \<and> d1 = d\<lparr>d_forceField := Some ff, d_coordinates := atomPositions m\<rparr>"
  using assms
  by (auto simp: optimizer_setup_def split: option.splits prod.splits if_splits)

lemma optimizer_setup_molecule:
  "d_molecule (snd (optimizer_setup create d)) = d_molecule d"
  by (auto simp: optimizer_setup_def split: option.splits prod.splits)

lemma optimize_True:
  assumes "optimize create random d = Some (Inr (True, d3))"
  shows "\<exists>d1 d2 m ff. optimizer_setup create d = (True, d1)
     \<and> stepUntilDone random d1 = Some (Inr d2)
     \<and> d_molecule d2 = d_molecule d \<and> d_molecule d = Some m
     \<and> d_forceField d2 = Some ff
     \<and> flt (rmsg ff (d_coordinates d2)) converganceValue
     \<and> writeCoordinates d2 = Inr d3
     \<and> d3 = d2\<lparr>d_molecule := Some (m\<lparr>atomPositions := d_coordinates d2\<rparr>)\<rparr>"
proof -
  obtain ok d1 where su: "optimizer_setup create d = (ok, d1)"
    by (cases "optimizer_setup create d")
  with assms have ok: "ok" by (cases ok) (simp_all add: optimize_def)
  from su ok assms obtain d2 where loop: "stepUntilDone random d1 = Some (Inr d2)"
    and wr: "writeCoordinates d2 = Inr d3"
    by (auto simp: optimize_def split: option.splits sum.splits)
  from su ok have "optimizer_setup create d = (True, d1)" by simp
  from optimizer_setup_True [OF this] obtain m ff where
    s: "d_molecule d = Some m" "d1 = d\<lparr>d_forceField := Some ff, d_coordinates := atomPositions m\<rparr>"
    by blast
  have "d_molecule d1 \<noteq> None" "d_forceField d1 = Some ff"
    using s by simp_all
  from stepUntilDone_converged [OF loop this]
  have c: "d_molecule d2 = d_molecule d1" "d_forceField d2 = Some ff"
    "length (d_coordinates d2) = length (d_coordinates d1)"
    "flt (rmsg ff (d_coordinates d2)) converganceValue"
    by simp_all
  have "writeCoordinates d2 = Inr (d2\<lparr>d_molecule := Some (m\<lparr>atomPositions := d_coordinates d2\<rparr>)\<rparr>)"
    using c s by (intro writeCoordinates_fits) simp_all
  with wr have "d3 = d2\<lparr>d_molecule := Some (m\<lparr>atomPositions := d_coordinates d2\<rparr>)\<rparr>"
    by simp
  with su ok loop c s wr show ?thesis by simp
qed

lemma stepN_loops:
  "stepN random n d = Inr (False, d') \<Longrightarrow> stepUntilDone random d = stepUntilDone random d'"
proof (induction n arbitrary: d)
  case 0
  then show ?case by simp
next
  case (Suc n)
  from Suc.prems obtain d1 where st: "step random d = Inr (False, d1)"
    and rest: "stepN random n d1 = Inr (False, d')"
    by (auto split: sum.splits if_splits)
  have "stepUntilDone random d = stepUntilDone random d1"
    by (subst stepUntilDone.simps) (simp add: st)
  with Suc.IH [OF rest] show ?case by simp
qed

lemma stepN_then_done:
  assumes "stepN random n d = Inr (False, d')" and "step random d' = Inr (True, d2)"
  shows "stepUntilDone random d = Some (Inr d2)"
proof -
  have "stepUntilDone random d' = Some (Inr d2)"
    by (subst stepUntilDone.simps) (simp add: assms(2))
  with stepN_loops [OF assms(1)] show ?thesis by simp
qed

lemma stepUntilDone_stepN:
  assumes "stepUntilDone random d = Some (Inr d2)"
  shows "\<exists>n d'. stepN random n d = Inr (False, d') \<and> step random d' = Inr (True, d2)"
  using assms
proof (induction random d "Inr d2 :: fault + MoleculeGeometryOptimizerPrivate"
    rule: stepUntilDone.raw_induct[rotated 1, consumes 1])
  case (1 loop random d)
  from "1.hyps"(2) obtain b d1 where st: "step random d = Inr (b, d1)"
    by (auto split: sum.splits)
  show ?case
  proof (cases b)
    case True
    with st "1.hyps"(2) have "d2 = d1" by simp
    with st True have "stepN random 0 d = Inr (False, d) \<and> step random d = Inr (True, d2)"
      by simp
    then show ?thesis by blast
  next
    case False
    with st "1.hyps"(2) have rec: "loop random d1 = Some (Inr d2)" by simp
    from "1.hyps"(1) [OF rec] obtain n d' where
      n: "stepN random n d1 = Inr (False, d')" "step random d' = Inr (True, d2)"
      by blast
    from st False n(1) have "stepN random (Suc n) d = Inr (False, d')"
      by simp
    with n(2) show ?thesis by blast
  qed
qed

lemma stepN_then_optimize:
  assumes su: "optimizer_setup create e = (True, e1)"
    and again: "stepN random n e1 = Inr (False, e')"
    and last: "step random e' = Inr (True, e2)"
  shows "\<exists>e3. writeCoordinates e2 = Inr e3 \<and> optimize create random e = Some (Inr (True, e3))"
proof -
  from optimizer_setup_True [OF su] obtain m ff where
    s: "d_molecule e = Some m" "e1 = e\<lparr>d_forceField := Some ff, d_coordinates := atomPositions m\<rparr>"
    by blast
  have loop: "stepUntilDone random e1 = Some (Inr e2)"
    using again last by (rule stepN_then_done)
  have "d_molecule e1 \<noteq> None" "d_forceField e1 = Some ff"
    using s by simp_all
  from stepUntilDone_converged [OF loop this]
  have c: "d_molecule e2 = d_molecule e1" "d_forceField e2 = Some ff"
    "length (d_coordinates e2) = length (d_coordinates e1)"
    by simp_all
  have wr: "writeCoordinates e2
      = Inr (e2\<lparr>d_molecule := Some (m\<lparr>atomPositions := d_coordinates e2\<rparr>)\<rparr>)"
    using c s by (intro writeCoordinates_fits) simp_all
  then have "optimize create random e
      = Some (Inr (True, e2\<lparr>d_molecule := Some (m\<lparr>atomPositions := d_coordinates e2\<rparr>)\<rparr>))"
    by (simp add: optimize_def su loop)
  with wr show ?thesis by blast
qed

text \<open>
  C1. Whenever \<^verbatim>\<open>optimize()\<close> returns true, the optimizer holds a force field and a molecule,
  the positions of the molecule's atoms are the optimizer's coordinates, just written back,
  and the root mean square gradient of the force field at them is below
  \<open>converganceValue\<close> (0.1); and the run was: \<^verbatim>\<open>setup()\<close> succeeded, some number of calls of
  \<^verbatim>\<open>step()\<close> in a row reported no convergence, the next call reported convergence, and
  its state was written back. Whenever \<^verbatim>\<open>step()\<close> runs with a molecule and a force field,
  its result is exactly whether the root mean square gradient at the coordinates it leaves
  is below \<open>converganceValue\<close>. The loop goes on after calls of \<^verbatim>\<open>step()\<close> that report no
  convergence: it then continues from the state they left. So, the other way round, when
  \<^verbatim>\<open>setup()\<close> succeeds, \<open>n\<close> calls of \<^verbatim>\<open>step()\<close> report no convergence and the next one
  does, \<^verbatim>\<open>optimize()\<close> returns true with the state of that last call written back.
\<close>

theorem optimize_true_converged:
  "(optimize create random d = Some (Inr (True, d3)) \<longrightarrow>
      (\<exists>ff m. d_forceField d3 = Some ff \<and> d_molecule d3 = Some m
           \<and> atomPositions m = d_coordinates d3
           \<and> flt (rmsg ff (atomPositions m)) converganceValue)
      \<and> (\<exists>d1 n d' d2. optimizer_setup create d = (True, d1)
           \<and> stepN random n d1 = Inr (False, d')
           \<and> step random d' = Inr (True, d2)
           \<and> writeCoordinates d2 = Inr d3))
   \<and> (step random s = Inr (b, s') \<and> d_molecule s \<noteq> None \<and> d_forceField s = Some ff' \<longrightarrow>
        b = flt (rmsg ff' (d_coordinates s')) converganceValue)
   \<and> (stepN random n e1 = Inr (False, e') \<longrightarrow>
        stepUntilDone random e1 = stepUntilDone random e')
   \<and> (optimizer_setup create e = (True, e1) \<and> stepN random n e1 = Inr (False, e')
        \<and> step random e' = Inr (True, e2) \<longrightarrow>
        (\<exists>e3. writeCoordinates e2 = Inr e3
           \<and> optimize create random e = Some (Inr (True, e3))))"
proof (intro conjI impI)
  assume opt: "optimize create random d = Some (Inr (True, d3))"
  from optimize_True [OF opt] obtain d1 d2 m ff where
    o: "optimizer_setup create d = (True, d1)" "stepUntilDone random d1 = Some (Inr d2)"
    "d_forceField d2 = Some ff" "flt (rmsg ff (d_coordinates d2)) converganceValue"
    "writeCoordinates d2 = Inr d3"
    "d3 = d2\<lparr>d_molecule := Some (m\<lparr>atomPositions := d_coordinates d2\<rparr>)\<rparr>"
    by blast
  from o(3,4,6) show "\<exists>ff m. d_forceField d3 = Some ff \<and> d_molecule d3 = Some m
           \<and> atomPositions m = d_coordinates d3
           \<and> flt (rmsg ff (atomPositions m)) converganceValue"
    by simp
  from stepUntilDone_stepN [OF o(2)] o(1,5)
  show "\<exists>d1 n d' d2. optimizer_setup create d = (True, d1)
           \<and> stepN random n d1 = Inr (False, d')
           \<and> step random d' = Inr (True, d2)
           \<and> writeCoordinates d2 = Inr d3"
    by blast
next
  assume "step random s = Inr (b, s') \<and> d_molecule s \<noteq> None \<and> d_forceField s = Some ff'"
  then show "b = flt (rmsg ff' (d_coordinates s')) converganceValue"
    using step_Inr by blast
next
  assume "stepN random n e1 = Inr (False, e')"
  then show "stepUntilDone random e1 = stepUntilDone random e'"
    by (rule stepN_loops)
next
  assume "optimizer_setup create e = (True, e1) \<and> stepN random n e1 = Inr (False, e')
        \<and> step random e' = Inr (True, e2)"
  then show "\<exists>e3. writeCoordinates e2 = Inr e3
           \<and> optimize create random e = Some (Inr (True, e3))"
    using stepN_then_optimize by blast
qed

lemma step_slope_fresh:
  "step random (freshSession\<lparr>d_forceField := Some slopeField,
       d_coordinates := [(Fin 0, Fin 0, Fin 0)]\<rparr>)
   = Inr (True, freshSession\<lparr>d_forceField := Some slopeField,
       d_coordinates := [(Fin (131 / 400), Fin 0, Fin 0)]\<rparr>)"
proof -
  have "lineSearch slopeField random 0
     (lineSearchStart slopeField (freshSession\<lparr>d_forceField := Some slopeField,
       d_coordinates := [(Fin 0, Fin 0, Fin 0)]\<rparr>))
    = Inr \<lparr>ls_coordinates = [(Fin (131 / 400), Fin 0, Fin 0)],
        ls_gradient = [(Fin (- (1 / 20)), Fin 0, Fin 0)], ls_step = Fin 1,
        ls_initialEnergy = Fin (- (131 / 8000)), ls_randomCalls = 0,
        ls_moves = 10\<rparr>"
    using lineSearch_slope_atOrigin [of random 0]
    by (simp add: lineSearchStart_def freshSession_def MoleculeGeometryOptimizer_def slopeField_def)
  then show ?thesis
    by (simp add: step_def freshSession_def MoleculeGeometryOptimizer_def atOrigin_def
        converganceValue_def slopeField_def)
qed

lemma optimize_fresh:
  "optimize testRegistry random freshSession = Some (Inr (True, convergedOnce))"
proof -
  have su: "optimizer_setup testRegistry freshSession
      = (True, freshSession\<lparr>d_forceField := Some slopeField,
       d_coordinates := [(Fin 0, Fin 0, Fin 0)]\<rparr>)"
    by (simp add: optimizer_setup_def freshSession_def MoleculeGeometryOptimizer_def
        testRegistry_def uffPlugin_def harmonicPlugin_def brokenPlugin_def atOrigin_def)
  have loop: "stepUntilDone random (freshSession\<lparr>d_forceField := Some slopeField,
       d_coordinates := [(Fin 0, Fin 0, Fin 0)]\<rparr>)
     = Some (Inr (freshSession\<lparr>d_forceField := Some slopeField,
       d_coordinates := [(Fin (131 / 400), Fin 0, Fin 0)]\<rparr>))"
    by (subst stepUntilDone.simps) (simp add: step_slope_fresh)
  have wr: "writeCoordinates (freshSession\<lparr>d_forceField := Some slopeField,
       d_coordinates := [(Fin (131 / 400), Fin 0, Fin 0)]\<rparr>) = Inr convergedOnce"
    by (simp add: writeCoordinates_def writeAtom_def freshSession_def
        MoleculeGeometryOptimizer_def atOrigin_def convergedOnce_def)
  show ?thesis
    by (simp add: optimize_def su loop wr)
qed

lemma step_spring_far:
  "step random (springSession (Fin 100)) = Inr (False, springSession (Fin (17 / 25)))"
proof -
  have "lineSearch springField random 0 (lineSearchStart springField (springSession (Fin 100)))
    = Inr \<lparr>ls_coordinates = [(Fin (17 / 25), Fin 0, Fin 0)],
        ls_gradient = [(Fin 100, Fin 0, Fin 0)], ls_step = Fin (4 / 625),
        ls_initialEnergy = Fin (289 / 1250), ls_randomCalls = 0, ls_moves = 10\<rparr>"
    by (simp add: lineSearchStart_def springSession_def run_defs springField_def)
  then show ?thesis
    by (simp add: step_def springSession_def converganceValue_def springField_def)
qed

lemma step_spring_near:
  "step random (springSession (Fin (17 / 25))) = Inr (True, springSession (Fin (289 / 62500)))"
proof -
  have "lineSearch springField random 0
      (lineSearchStart springField (springSession (Fin (17 / 25))))
    = Inr \<lparr>ls_coordinates = [(Fin (289 / 62500), Fin 0, Fin 0)],
        ls_gradient = [(Fin (17 / 25), Fin 0, Fin 0)], ls_step = Fin (4 / 625),
        ls_initialEnergy = Fin (83521 / 7812500000), ls_randomCalls = 0, ls_moves = 10\<rparr>"
    by (simp add: lineSearchStart_def springSession_def run_defs springField_def)
  then show ?thesis
    by (simp add: step_def springSession_def converganceValue_def springField_def)
qed

theorem optimize_true_converged_witness:
  "optimize springRegistry alongX (MoleculeGeometryOptimizer (Some atHundred) 0)
     = Some (Inr (True, springDone))
   \<and> optimizer_setup springRegistry (MoleculeGeometryOptimizer (Some atHundred) 0)
       = (True, springSession (Fin 100))
   \<and> step alongX (springSession (Fin 100)) = Inr (False, springSession (Fin (17 / 25)))
   \<and> \<not> flt (rmsg springField [(Fin (17 / 25), Fin 0, Fin 0)]) converganceValue
   \<and> stepUntilDone alongX (springSession (Fin 100))
       = stepUntilDone alongX (springSession (Fin (17 / 25)))
   \<and> step alongX (springSession (Fin (17 / 25))) = Inr (True, springSession (Fin (289 / 62500)))
   \<and> flt (rmsg springField [(Fin (289 / 62500), Fin 0, Fin 0)]) converganceValue
   \<and> (\<exists>ff m. d_forceField springDone = Some ff \<and> d_molecule springDone = Some m
           \<and> atomPositions m = d_coordinates springDone
           \<and> flt (rmsg ff (atomPositions m)) converganceValue)"
proof -
  let ?new = "MoleculeGeometryOptimizer (Some atHundred) 0"
  have su: "optimizer_setup springRegistry ?new = (True, springSession (Fin 100))"
    by (simp add: optimizer_setup_def MoleculeGeometryOptimizer_def springRegistry_def
        springPlugin_def springSession_def atHundred_def)
  have far: "step alongX (springSession (Fin 100)) = Inr (False, springSession (Fin (17 / 25)))"
    by (rule step_spring_far)
  have near: "step alongX (springSession (Fin (17 / 25)))
      = Inr (True, springSession (Fin (289 / 62500)))"
    by (rule step_spring_near)
  have one: "stepN alongX 1 (springSession (Fin 100)) = Inr (False, springSession (Fin (17 / 25)))"
    by (simp add: far)
  have wr: "writeCoordinates (springSession (Fin (289 / 62500))) = Inr springDone"
    by (simp add: writeCoordinates_def writeAtom_def springSession_def springDone_def
        atHundred_def)
  have m1: "d_molecule (springSession (Fin 100)) \<noteq> None
      \<and> d_forceField (springSession (Fin 100)) = Some springField"
    by (simp add: springSession_def)
  have r1: "\<not> flt (rmsg springField [(Fin (17 / 25), Fin 0, Fin 0)]) converganceValue"
    using optimize_true_converged [where random = alongX and s = "springSession (Fin 100)"
        and b = False and s' = "springSession (Fin (17 / 25))" and ff' = springField] far m1
    by (simp add: springSession_def)
  note inst = optimize_true_converged [where create = springRegistry and random = alongX
      and d = ?new and ?d3.0 = springDone
      and s = "springSession (Fin (17 / 25))" and b = True
      and s' = "springSession (Fin (289 / 62500))" and ff' = springField
      and n = 1 and ?e1.0 = "springSession (Fin 100)" and e' = "springSession (Fin (17 / 25))"
      and e = ?new and ?e2.0 = "springSession (Fin (289 / 62500))"]
  from inst su one near wr
  have opt: "optimize springRegistry alongX ?new = Some (Inr (True, springDone))"
    by auto
  from inst one have loop: "stepUntilDone alongX (springSession (Fin 100))
       = stepUntilDone alongX (springSession (Fin (17 / 25)))"
    by blast
  have m2: "d_molecule (springSession (Fin (17 / 25))) \<noteq> None
      \<and> d_forceField (springSession (Fin (17 / 25))) = Some springField"
    by (simp add: springSession_def)
  from inst near m2
  have r2: "flt (rmsg springField [(Fin (289 / 62500), Fin 0, Fin 0)]) converganceValue"
    by (simp add: springSession_def)
  from inst opt
  have fin: "\<exists>ff m. d_forceField springDone = Some ff \<and> d_molecule springDone = Some m
           \<and> atomPositions m = d_coordinates springDone
           \<and> flt (rmsg ff (atomPositions m)) converganceValue"
    by blast
  from opt su far r1 loop near r2 fin show ?thesis
    by blast
qed

text \<open>
  C7. If \<^verbatim>\<open>setup()\<close> fails, \<^verbatim>\<open>optimize()\<close> returns false with the state \<^verbatim>\<open>setup()\<close> left,
  in which the molecule is as it was. If \<^verbatim>\<open>optimize()\<close> returns true, then \<^verbatim>\<open>setup()\<close>
  succeeded, the loop over \<^verbatim>\<open>step()\<close> ended in a state that still has the molecule
  \<^verbatim>\<open>optimize()\<close> started with and whose coordinates have converged, and the final state is
  that state with the coordinates written to the molecule, by the one call of
  \<^verbatim>\<open>writeCoordinates()\<close>. No \<^verbatim>\<open>step()\<close> changes the molecule.
\<close>

theorem optimize_writes_once:
  "(fst (optimizer_setup create d) = False \<longrightarrow>
      optimize create random d = Some (Inr (False, snd (optimizer_setup create d)))
      \<and> d_molecule (snd (optimizer_setup create d)) = d_molecule d)
   \<and> (optimize create random d = Some (Inr (True, d3)) \<longrightarrow>
      (\<exists>d1 d2 m ff. optimizer_setup create d = (True, d1)
         \<and> stepUntilDone random d1 = Some (Inr d2)
         \<and> d_molecule d2 = d_molecule d \<and> d_molecule d = Some m
         \<and> d_forceField d2 = Some ff
         \<and> flt (rmsg ff (d_coordinates d2)) converganceValue
         \<and> writeCoordinates d2 = Inr d3
         \<and> d3 = d2\<lparr>d_molecule := Some (m\<lparr>atomPositions := d_coordinates d2\<rparr>)\<rparr>))
   \<and> (step random s = Inr (b, s') \<longrightarrow> d_molecule s' = d_molecule s)"
proof (intro conjI impI)
  assume f: "fst (optimizer_setup create d) = False"
  then show "optimize create random d = Some (Inr (False, snd (optimizer_setup create d)))"
    by (cases "optimizer_setup create d") (simp add: optimize_def)
  show "d_molecule (snd (optimizer_setup create d)) = d_molecule d"
    by (rule optimizer_setup_molecule)
next
  assume "optimize create random d = Some (Inr (True, d3))"
  then show "\<exists>d1 d2 m ff. optimizer_setup create d = (True, d1)
         \<and> stepUntilDone random d1 = Some (Inr d2)
         \<and> d_molecule d2 = d_molecule d \<and> d_molecule d = Some m
         \<and> d_forceField d2 = Some ff
         \<and> flt (rmsg ff (d_coordinates d2)) converganceValue
         \<and> writeCoordinates d2 = Inr d3
         \<and> d3 = d2\<lparr>d_molecule := Some (m\<lparr>atomPositions := d_coordinates d2\<rparr>)\<rparr>"
    by (rule optimize_True)
next
  assume "step random s = Inr (b, s')"
  then show "d_molecule s' = d_molecule s"
    by (simp add: step_molecule)
qed

theorem optimize_writes_once_witness:
  "optimize testRegistry alongX (snd (setForceField ''nonexistent'' freshSession))
     = Some (Inr (False, snd (optimizer_setup testRegistry
                                (snd (setForceField ''nonexistent'' freshSession)))))
   \<and> d_molecule (snd (optimizer_setup testRegistry
         (snd (setForceField ''nonexistent'' freshSession)))) = Some atOrigin
   \<and> optimize testRegistry alongX freshSession = Some (Inr (True, convergedOnce))
   \<and> (\<exists>d2. writeCoordinates d2 = Inr convergedOnce \<and> d_molecule d2 = Some atOrigin
          \<and> flt (rmsg slopeField (d_coordinates d2)) converganceValue)
   \<and> step alongX harmonicSession
       = Inr (False, harmonicSession\<lparr>d_coordinates := [(Fin (- (1 / 2)), Fin 0, Fin 0)]\<rparr>)
   \<and> d_molecule (harmonicSession\<lparr>d_coordinates := [(Fin (- (1 / 2)), Fin 0, Fin 0)]\<rparr>)
       = Some atOne"
proof -
  let ?bad = "snd (setForceField ''nonexistent'' freshSession)"
  have 1: "fst (optimizer_setup testRegistry ?bad) = False"
    by (simp add: optimizer_setup_def setForceField_def freshSession_def
        MoleculeGeometryOptimizer_def testRegistry_def uffPlugin_def harmonicPlugin_def brokenPlugin_def)
  have 2: "optimize testRegistry alongX freshSession = Some (Inr (True, convergedOnce))"
    by (rule optimize_fresh)
  have 3: "step alongX harmonicSession
       = Inr (False, harmonicSession\<lparr>d_coordinates := [(Fin (- (1 / 2)), Fin 0, Fin 0)]\<rparr>)"
    using lineSearch_harmonic_atOne
    by (simp add: step_def lineSearchStart_def harmonicSession_def harmonicField_def
        converganceValue_def)
  have 4: "d_molecule ?bad = Some atOrigin"
    by (simp add: setForceField_def freshSession_def MoleculeGeometryOptimizer_def)
  from optimize_writes_once [of testRegistry ?bad alongX] 1 4
  have a: "optimize testRegistry alongX ?bad
     = Some (Inr (False, snd (optimizer_setup testRegistry ?bad)))
     \<and> d_molecule (snd (optimizer_setup testRegistry ?bad)) = Some atOrigin"
    by simp
  from optimize_writes_once [of testRegistry freshSession alongX convergedOnce
      harmonicSession False "harmonicSession\<lparr>d_coordinates := [(Fin (- (1 / 2)), Fin 0, Fin 0)]\<rparr>"]
    2 3
  have b: "d_molecule (harmonicSession\<lparr>d_coordinates := [(Fin (- (1 / 2)), Fin 0, Fin 0)]\<rparr>)
       = d_molecule harmonicSession"
    by blast
  have 5: "d_molecule freshSession = Some atOrigin"
    by (simp add: freshSession_def MoleculeGeometryOptimizer_def)
  from optimize_writes_once [of testRegistry freshSession alongX convergedOnce] 2
  obtain d2 m ff where d2: "d_molecule d2 = d_molecule freshSession" "d_forceField d2 = Some ff"
    "flt (rmsg ff (d_coordinates d2)) converganceValue" "writeCoordinates d2 = Inr convergedOnce"
    "convergedOnce = d2\<lparr>d_molecule := Some (m\<lparr>atomPositions := d_coordinates d2\<rparr>)\<rparr>"
    by blast
  have "d_forceField convergedOnce = Some slopeField"
    by (simp add: convergedOnce_def)
  then have "ff = slopeField"
    using d2(2) by (subst (asm) d2(5)) simp
  with d2 5 have c: "\<exists>d2. writeCoordinates d2 = Inr convergedOnce \<and> d_molecule d2 = Some atOrigin
          \<and> flt (rmsg slopeField (d_coordinates d2)) converganceValue"
    by auto
  from a b c 2 3 show ?thesis
    by (simp add: harmonicSession_def)
qed

lemma step_slope_once:
  "step random convergedOnce
   = Inr (True, convergedOnce\<lparr>d_coordinates := [(Fin (131 / 200), Fin 0, Fin 0)]\<rparr>)"
proof -
  have "lineSearch slopeField random 0 (lineSearchStart slopeField convergedOnce)
    = Inr \<lparr>ls_coordinates = [(Fin (131 / 200), Fin 0, Fin 0)],
        ls_gradient = [(Fin (- (1 / 20)), Fin 0, Fin 0)], ls_step = Fin 1,
        ls_initialEnergy = Fin (- (131 / 4000)), ls_randomCalls = 0,
        ls_moves = 10\<rparr>"
    by (simp add: lineSearchStart_def convergedOnce_def run_defs slopeField_def)
  then show ?thesis
    by (simp add: step_def convergedOnce_def converganceValue_def slopeField_def)
qed

lemma optimize_once:
  "optimize testRegistry random convergedOnce = Some (Inr (True, convergedTwice))"
proof -
  have su: "optimizer_setup testRegistry convergedOnce = (True, convergedOnce)"
    by (simp add: optimizer_setup_def convergedOnce_def testRegistry_def uffPlugin_def harmonicPlugin_def brokenPlugin_def)
  have loop: "stepUntilDone random convergedOnce
     = Some (Inr (convergedOnce\<lparr>d_coordinates := [(Fin (131 / 200), Fin 0, Fin 0)]\<rparr>))"
    by (subst stepUntilDone.simps) (simp add: step_slope_once)
  have wr: "writeCoordinates (convergedOnce\<lparr>d_coordinates := [(Fin (131 / 200), Fin 0, Fin 0)]\<rparr>)
      = Inr convergedTwice"
    by (simp add: writeCoordinates_def writeAtom_def convergedOnce_def convergedTwice_def)
  show ?thesis
    by (simp add: optimize_def su loop wr)
qed

text \<open>
  C8, as stated, fails. In the linear potential the first \<^verbatim>\<open>optimize()\<close> converges with
  the atom at 131/400; a second \<^verbatim>\<open>optimize()\<close> on the result converges too, after one
  \<^verbatim>\<open>step()\<close>, and moves the atom to 131/200: by 0.3275, which is not below 0.1.
\<close>

theorem optimize_again_moves_counterexample:
  "optimize testRegistry alongX freshSession = Some (Inr (True, convergedOnce))
   \<and> optimize testRegistry alongX convergedOnce = Some (Inr (True, convergedTwice))
   \<and> x0 (atomPositions (the (d_molecule convergedOnce))) = Fin (131 / 400)
   \<and> x0 (atomPositions (the (d_molecule convergedTwice))) = Fin (131 / 200)
   \<and> \<not> flt (fabs (fsub (Fin (131 / 200)) (Fin (131 / 400)))) converganceValue"
proof -
  have a: "x0 (atomPositions (the (d_molecule convergedOnce))) = Fin (131 / 400)"
    by (simp add: convergedOnce_def)
  have b: "x0 (atomPositions (the (d_molecule convergedTwice))) = Fin (131 / 200)"
    by (simp add: convergedTwice_def)
  have c: "\<not> flt (fabs (fsub (Fin (131 / 200)) (Fin (131 / 400)))) converganceValue"
    by (simp add: fsub_def converganceValue_def)
  from optimize_fresh [of alongX] optimize_once [of alongX] a b c show ?thesis
    by blast
qed

lemma moveAtoms_zero_gradient:
  assumes ac: "atomCount ff \<le> length c" and gl: "atomCount ff \<le> length g"
    and zero: "\<forall>i<atomCount ff. g ! i = zero3"
  shows "moveAtoms ff g (Fin r) c = Inr c"
proof -
  from moveAtoms_fits [OF ac gl, of "Fin r"] obtain c' where
    c': "moveAtoms ff g (Fin r) c = Inr c'" "length c' = length c"
    "\<forall>i<atomCount ff. c' ! i = vadd (c ! i) (vscale (vneg (g ! i)) (Fin r))"
    "\<forall>i. atomCount ff \<le> i \<longrightarrow> c' ! i = c ! i"
    by blast
  have "c' = c"
  proof (rule nth_equalityI)
    show "length c' = length c" by (rule c'(2))
  next
    fix i
    assume "i < length c'"
    show "c' ! i = c ! i"
    proof (cases "i < atomCount ff")
      case True
      with c'(3) zero show ?thesis
        by (simp add: vscale_vneg_zero3 vadd_zero3)
    next
      case False
      with c'(4) show ?thesis by simp
    qed
  qed
  with c'(1) show ?thesis by simp
qed

lemma iteration_stationary:
  assumes ac: "atomCount ff \<le> length (ls_coordinates ls)"
    and gl: "atomCount ff \<le> length (ls_gradient ls)"
    and zero: "\<forall>i<atomCount ff. ls_gradient ls ! i = zero3"
    and st: "ls_step ls = Fin r"
    and en: "ls_initialEnergy ls = energy ff (ls_coordinates ls)"
    and nn: "\<not> isnan (energy ff (ls_coordinates ls))"
  shows "iteration ff random ls = Inr (False, ls\<lparr>ls_moves := Suc (ls_moves ls)\<rparr>)"
proof -
  have "moveAtoms ff (ls_gradient ls) (ls_step ls) (ls_coordinates ls) = Inr (ls_coordinates ls)"
    unfolding st using ac gl zero by (rule moveAtoms_zero_gradient)
  then show ?thesis
    using en nn by (simp add: iteration_def flt_irrefl)
qed

lemma lineSearch_stationary:
  "atomCount ff \<le> length (ls_coordinates ls) \<Longrightarrow> atomCount ff \<le> length (ls_gradient ls) \<Longrightarrow>
   \<forall>i<atomCount ff. ls_gradient ls ! i = zero3 \<Longrightarrow> ls_step ls = Fin r \<Longrightarrow>
   ls_initialEnergy ls = energy ff (ls_coordinates ls) \<Longrightarrow>
   \<not> isnan (energy ff (ls_coordinates ls)) \<Longrightarrow>
   \<exists>n. lineSearch ff random i ls = Inr (ls\<lparr>ls_moves := n\<rparr>)"
proof (induction ff random i ls rule: lineSearch.induct)
  case (1 ff random i ls)
  show ?case
  proof (cases "i < stepCount")
    case False
    then have "lineSearch ff random i ls = Inr (ls\<lparr>ls_moves := ls_moves ls\<rparr>)"
      by (simp add: lineSearch.simps [of ff random i ls])
    then show ?thesis by blast
  next
    case True
    let ?ls1 = "ls\<lparr>ls_moves := Suc (ls_moves ls)\<rparr>"
    have it: "iteration ff random ls = Inr (False, ?ls1)"
      using "1.prems" by (rule iteration_stationary)
    from "1.IH" [OF True it refl _] "1.prems"
    obtain n where "lineSearch ff random (i + 1) ?ls1 = Inr (?ls1\<lparr>ls_moves := n\<rparr>)"
      by auto
    with True it have "lineSearch ff random i ls = Inr (ls\<lparr>ls_moves := n\<rparr>)"
      by (simp add: lineSearch.simps [of ff random i ls])
    then show ?thesis by blast
  qed
qed

text \<open>
  C8, amended. \<^verbatim>\<open>optimize()\<close> on a molecule where the force field's root mean square
  gradient is already below \<open>converganceValue\<close> still runs \<^verbatim>\<open>setup()\<close> and a whole
  \<^verbatim>\<open>step()\<close>. If moreover the gradient there is zero for every atom the force field counts
  and the energy is a number, that one \<^verbatim>\<open>step()\<close> reports convergence and leaves the state
  as \<^verbatim>\<open>setup()\<close> made it, and \<^verbatim>\<open>optimize()\<close> returns true with the molecule unchanged.
\<close>

theorem optimize_again_stationary:
  assumes mol: "d_molecule d = Some m"
    and reg: "create (d_forceFieldName d) = Some plugin" and plug: "plugin m = (True, ff)"
    and ac: "atomCount ff \<le> length (atomPositions m)"
    and gl: "atomCount ff \<le> length (gradient ff (atomPositions m))"
    and zero: "\<forall>i<atomCount ff. gradient ff (atomPositions m) ! i = zero3"
    and nn: "\<not> isnan (energy ff (atomPositions m))"
    and conv: "flt (rmsg ff (atomPositions m)) converganceValue"
  shows "optimizer_setup create d
           = (True, d\<lparr>d_forceField := Some ff, d_coordinates := atomPositions m\<rparr>)
     \<and> step random (d\<lparr>d_forceField := Some ff, d_coordinates := atomPositions m\<rparr>)
           = Inr (True, d\<lparr>d_forceField := Some ff, d_coordinates := atomPositions m\<rparr>)
     \<and> optimize create random d
           = Some (Inr (True, d\<lparr>d_forceField := Some ff, d_coordinates := atomPositions m\<rparr>))"
proof -
  let ?d1 = "d\<lparr>d_forceField := Some ff, d_coordinates := atomPositions m\<rparr>"
  have su: "optimizer_setup create d = (True, ?d1)"
    using mol reg plug by (simp add: optimizer_setup_def)
  from lineSearch_stationary [of ff "lineSearchStart ff ?d1" "5 / 100" random 0] ac gl zero nn
  obtain n where "lineSearch ff random 0 (lineSearchStart ff ?d1)
      = Inr ((lineSearchStart ff ?d1)\<lparr>ls_moves := n\<rparr>)"
    by (auto simp: lineSearchStart_def)
  then have st: "step random ?d1 = Inr (True, ?d1)"
    using mol conv by (simp add: step_def lineSearchStart_def)
  have loop: "stepUntilDone random ?d1 = Some (Inr ?d1)"
    by (subst stepUntilDone.simps) (simp add: st)
  have "writeCoordinates ?d1
      = Inr (?d1\<lparr>d_molecule := Some (m\<lparr>atomPositions := d_coordinates ?d1\<rparr>)\<rparr>)"
    using mol by (intro writeCoordinates_fits) simp_all
  then have wr: "writeCoordinates ?d1 = Inr ?d1"
    using mol by simp
  show ?thesis
    by (simp add: su st optimize_def loop wr)
qed

theorem optimize_again_stationary_witness:
  "optimize testRegistry alongX restingSession
     = Some (Inr (True, restingSession\<lparr>d_forceField := Some harmonicField,
                          d_coordinates := [(Fin 0, Fin 0, Fin 0)]\<rparr>))
   \<and> d_molecule (restingSession\<lparr>d_forceField := Some harmonicField,
                          d_coordinates := [(Fin 0, Fin 0, Fin 0)]\<rparr>) = Some atOrigin"
proof -
  have 1: "d_molecule restingSession = Some atOrigin"
    by (simp add: restingSession_def)
  have 2: "testRegistry (d_forceFieldName restingSession) = Some harmonicPlugin"
    by (simp add: restingSession_def testRegistry_def)
  have 3: "harmonicPlugin atOrigin = (True, harmonicField)"
    by (simp add: harmonicPlugin_def)
  have 4: "atomCount harmonicField \<le> length (atomPositions atOrigin)"
    by (simp add: harmonicField_def atOrigin_def)
  have 5: "atomCount harmonicField \<le> length (gradient harmonicField (atomPositions atOrigin))"
    by (simp add: harmonicField_def atOrigin_def)
  have 6: "\<forall>i<atomCount harmonicField. gradient harmonicField (atomPositions atOrigin) ! i = zero3"
    by (simp add: harmonicField_def atOrigin_def zero3_def)
  have 7: "\<not> isnan (energy harmonicField (atomPositions atOrigin))"
    by (simp add: harmonicField_def atOrigin_def)
  have 8: "flt (rmsg harmonicField (atomPositions atOrigin)) converganceValue"
    by (simp add: harmonicField_def atOrigin_def converganceValue_def)
  from optimize_again_stationary [of restingSession atOrigin testRegistry harmonicPlugin
      harmonicField alongX, OF 1 2 3 4 5 6 7 8] 1
  show ?thesis
    by (simp add: atOrigin_def)
qed

section \<open>\<^verbatim>\<open>setup()\<close> and \<^verbatim>\<open>energy()\<close>\<close>

text \<open>
  C6. \<^verbatim>\<open>setup()\<close> returns false and leaves a non-empty error string in each of the three
  cases: no molecule, a force field name the registry does not know, a force field whose
  own \<^verbatim>\<open>setup()\<close> fails. After such a failure, once a molecule and the name of a force
  field that accepts it have been set, \<^verbatim>\<open>setup()\<close> succeeds.
\<close>

theorem setup_failure:
  assumes fail: "d_molecule d = None
      \<or> (\<exists>m. d_molecule d = Some m
            \<and> (create (d_forceFieldName d) = None
                 \<or> (\<exists>plugin. create (d_forceFieldName d) = Some plugin \<and> \<not> fst (plugin m))))"
    and reg: "create2 name = Some plugin2" and plug: "plugin2 m2 = (True, ff2)"
  shows "fst (optimizer_setup create d) = False
     \<and> errorString (snd (optimizer_setup create d)) \<noteq> []
     \<and> errorString (snd (optimizer_setup create d))
         = (if d_molecule d = None then ''No molecule specified''
            else if create (d_forceFieldName d) = None
            then ''Force field '' @ [CHR 0x27] @ d_forceFieldName d @ [CHR 0x27]
                   @ '' is not supported.''
            else ''Failed to setup force field.'')
     \<and> (\<exists>d'. optimizer_setup create2
            (snd (setForceField name (setMolecule (Some m2) (snd (optimizer_setup create d)))))
           = (True, d')
         \<and> d_forceField d' = Some ff2 \<and> d_coordinates d' = atomPositions m2
         \<and> d_molecule d' = Some m2)"
proof -
  have a: "fst (optimizer_setup create d) = False
     \<and> errorString (snd (optimizer_setup create d))
         = (if d_molecule d = None then ''No molecule specified''
            else if create (d_forceFieldName d) = None
            then ''Force field '' @ [CHR 0x27] @ d_forceFieldName d @ [CHR 0x27]
                   @ '' is not supported.''
            else ''Failed to setup force field.'')"
    using fail
    by (auto simp: optimizer_setup_def errorString_def split: prod.splits)
  then have b: "errorString (snd (optimizer_setup create d)) \<noteq> []"
    by simp
  let ?r = "snd (setForceField name (setMolecule (Some m2) (snd (optimizer_setup create d))))"
  have "d_molecule ?r = Some m2" "d_forceFieldName ?r = name"
    by (simp_all add: setForceField_def setMolecule_def)
  then have "\<exists>d'. optimizer_setup create2 ?r = (True, d')
         \<and> d_forceField d' = Some ff2 \<and> d_coordinates d' = atomPositions m2
         \<and> d_molecule d' = Some m2"
    using reg plug by (simp add: optimizer_setup_def)
  with a b show ?thesis by blast
qed

theorem setup_failure_witness:
  "optimizer_setup testRegistry (MoleculeGeometryOptimizer None 0)
     = (False, (MoleculeGeometryOptimizer None 0)\<lparr>d_errorString := ''No molecule specified''\<rparr>)
   \<and> fst (optimizer_setup testRegistry
        (retried (snd (optimizer_setup testRegistry (MoleculeGeometryOptimizer None 0)))))
   \<and> errorString (snd (optimizer_setup testRegistry (snd (setForceField ''nonexistent'' freshSession))))
       = ''Force field '' @ [CHR 0x27] @ ''nonexistent'' @ [CHR 0x27] @ '' is not supported.''
   \<and> fst (optimizer_setup testRegistry
        (retried (snd (optimizer_setup testRegistry (snd (setForceField ''nonexistent'' freshSession))))))
   \<and> errorString (snd (optimizer_setup testRegistry (snd (setForceField ''broken'' freshSession))))
       = ''Failed to setup force field.''
   \<and> fst (optimizer_setup testRegistry
        (retried (snd (optimizer_setup testRegistry (snd (setForceField ''broken'' freshSession))))))"
proof -
  let ?none = "MoleculeGeometryOptimizer None 0"
  let ?unknown = "snd (setForceField ''nonexistent'' freshSession)"
  let ?broken = "snd (setForceField ''broken'' freshSession)"
  have reg: "testRegistry ''uff'' = Some uffPlugin"
    by (simp add: testRegistry_def)
  have plug: "uffPlugin atOrigin = (True, slopeField)"
    by (simp add: uffPlugin_def)
  have 1: "d_molecule ?none = None"
    by (simp add: MoleculeGeometryOptimizer_def)
  have 2: "d_molecule ?unknown = Some atOrigin \<and> testRegistry (d_forceFieldName ?unknown) = None"
    by (simp add: setForceField_def freshSession_def MoleculeGeometryOptimizer_def testRegistry_def)
  have 3: "d_molecule ?broken = Some atOrigin
      \<and> testRegistry (d_forceFieldName ?broken) = Some brokenPlugin \<and> \<not> fst (brokenPlugin atOrigin)"
    by (simp add: setForceField_def freshSession_def MoleculeGeometryOptimizer_def testRegistry_def
        brokenPlugin_def)
  from 1 have h1: "d_molecule ?none = None
      \<or> (\<exists>m. d_molecule ?none = Some m
            \<and> (testRegistry (d_forceFieldName ?none) = None
                 \<or> (\<exists>plugin. testRegistry (d_forceFieldName ?none) = Some plugin \<and> \<not> fst (plugin m))))"
    by blast
  from 2 have h2: "d_molecule ?unknown = None
      \<or> (\<exists>m. d_molecule ?unknown = Some m
            \<and> (testRegistry (d_forceFieldName ?unknown) = None
                 \<or> (\<exists>plugin. testRegistry (d_forceFieldName ?unknown) = Some plugin \<and> \<not> fst (plugin m))))"
    by blast
  from 3 have h3: "d_molecule ?broken = None
      \<or> (\<exists>m. d_molecule ?broken = Some m
            \<and> (testRegistry (d_forceFieldName ?broken) = None
                 \<or> (\<exists>plugin. testRegistry (d_forceFieldName ?broken) = Some plugin \<and> \<not> fst (plugin m))))"
    by blast
  have a: "optimizer_setup testRegistry ?none
     = (False, ?none\<lparr>d_errorString := ''No molecule specified''\<rparr>)"
    by (simp add: optimizer_setup_def MoleculeGeometryOptimizer_def)
  note w1 = setup_failure [of ?none testRegistry testRegistry "''uff''" uffPlugin atOrigin
      slopeField, OF h1 reg plug]
  note w2 = setup_failure [of ?unknown testRegistry testRegistry "''uff''" uffPlugin atOrigin
      slopeField, OF h2 reg plug]
  note w3 = setup_failure [of ?broken testRegistry testRegistry "''uff''" uffPlugin atOrigin
      slopeField, OF h3 reg plug]
  have n: "d_forceFieldName ?unknown = ''nonexistent''"
    by (simp add: setForceField_def)
  from w1 have r1: "fst (optimizer_setup testRegistry
        (retried (snd (optimizer_setup testRegistry ?none))))"
    unfolding retried_def by auto
  from w2 2 n have e2: "errorString (snd (optimizer_setup testRegistry ?unknown))
       = ''Force field '' @ [CHR 0x27] @ ''nonexistent'' @ [CHR 0x27] @ '' is not supported.''"
    by simp
  from w2 have r2: "fst (optimizer_setup testRegistry
        (retried (snd (optimizer_setup testRegistry ?unknown))))"
    unfolding retried_def by auto
  from w3 3 have e3: "errorString (snd (optimizer_setup testRegistry ?broken))
       = ''Failed to setup force field.''"
    by simp
  from w3 have r3: "fst (optimizer_setup testRegistry
        (retried (snd (optimizer_setup testRegistry ?broken))))"
    unfolding retried_def by auto
  from a r1 e2 r2 e3 r3 show ?thesis
    by blast
qed

text \<open>
  C9, as stated, fails: after a \<^verbatim>\<open>setup()\<close> that failed in the force field's own
  \<^verbatim>\<open>setup()\<close> the optimizer still holds that force field, and \<^verbatim>\<open>energy()\<close> is the force
  field's energy, here 5, not zero.
\<close>

theorem optimizer_energy_after_failed_setup_counterexample:
  "fst (optimizer_setup testRegistry (snd (setForceField ''broken'' freshSession))) = False
   \<and> optimizer_energy (snd (optimizer_setup testRegistry (snd (setForceField ''broken'' freshSession))))
       = Fin 5
   \<and> optimizer_energy (snd (optimizer_setup testRegistry (snd (setForceField ''broken'' freshSession))))
       \<noteq> Fin 0"
  by (simp add: optimizer_setup_def setForceField_def freshSession_def MoleculeGeometryOptimizer_def
      testRegistry_def brokenPlugin_def optimizer_energy_def constantField_def)

text \<open>
  C9, amended. \<^verbatim>\<open>energy()\<close> is zero when the optimizer holds no force field and the force
  field's energy at the optimizer's coordinates when it holds one. It holds none when it
  is new and after a \<^verbatim>\<open>setup()\<close> that failed on an unknown name. After any other
  \<^verbatim>\<open>setup()\<close> with a molecule it holds the force field the plugin made, also when the
  plugin's \<^verbatim>\<open>setup()\<close> failed; after a \<^verbatim>\<open>setup()\<close> without a molecule it holds what it held
  before.
\<close>

theorem optimizer_energy_cases:
  "(d_forceField d = None \<longrightarrow> optimizer_energy d = Fin 0)
   \<and> (d_forceField d = Some ff \<longrightarrow> optimizer_energy d = energy ff (d_coordinates d))
   \<and> optimizer_energy (MoleculeGeometryOptimizer molecule seed) = Fin 0
   \<and> (d_molecule d \<noteq> None \<and> create (d_forceFieldName d) = None \<longrightarrow>
        optimizer_energy (snd (optimizer_setup create d)) = Fin 0)
   \<and> (d_molecule d = Some m \<and> create (d_forceFieldName d) = Some plugin \<longrightarrow>
        optimizer_energy (snd (optimizer_setup create d))
          = energy (snd (plugin m)) (if fst (plugin m) then atomPositions m else d_coordinates d))
   \<and> (d_molecule d = None \<longrightarrow>
        optimizer_energy (snd (optimizer_setup create d)) = optimizer_energy d)"
  by (auto simp: optimizer_energy_def optimizer_setup_def MoleculeGeometryOptimizer_def
      split: prod.splits option.splits)

theorem optimizer_energy_cases_witness:
  "optimizer_energy freshSession = Fin 0
   \<and> optimizer_energy convergedOnce = Fin (- (131 / 8000))
   \<and> optimizer_energy (snd (optimizer_setup testRegistry (snd (setForceField ''nonexistent'' convergedOnce))))
       = Fin 0
   \<and> optimizer_energy (snd (optimizer_setup testRegistry (snd (setForceField ''broken'' convergedOnce))))
       = Fin 5
   \<and> optimizer_energy (snd (optimizer_setup testRegistry (setMolecule None convergedOnce)))
       = Fin (- (131 / 8000))"
proof -
  let ?unknown = "snd (setForceField ''nonexistent'' convergedOnce)"
  let ?broken = "snd (setForceField ''broken'' convergedOnce)"
  let ?gone = "setMolecule None convergedOnce"
  have 1: "d_forceField freshSession = None"
    by (simp add: freshSession_def MoleculeGeometryOptimizer_def)
  have 2: "d_forceField convergedOnce = Some slopeField"
    by (simp add: convergedOnce_def)
  have 3: "d_molecule ?unknown \<noteq> None \<and> testRegistry (d_forceFieldName ?unknown) = None"
    by (simp add: setForceField_def convergedOnce_def testRegistry_def)
  have 4: "d_molecule ?broken = Some \<lparr>atomPositions = [(Fin (131 / 400), Fin 0, Fin 0)]\<rparr>
      \<and> testRegistry (d_forceFieldName ?broken) = Some brokenPlugin"
    by (simp add: setForceField_def convergedOnce_def testRegistry_def)
  have 5: "d_molecule ?gone = None \<and> d_forceField ?gone = Some slopeField"
    by (simp add: setMolecule_def convergedOnce_def)
  have e: "energy slopeField (d_coordinates convergedOnce) = Fin (- (131 / 8000))"
    by (simp add: convergedOnce_def slopeField_def)
  have e5: "energy (snd (brokenPlugin \<lparr>atomPositions = [(Fin (131 / 400), Fin 0, Fin 0)]\<rparr>)) c = Fin 5"
    for c by (simp add: brokenPlugin_def constantField_def)
  have g: "d_coordinates ?gone = d_coordinates convergedOnce"
    by (simp add: setMolecule_def)
  from optimizer_energy_cases [of freshSession] 1
  have a: "optimizer_energy freshSession = Fin 0" by blast
  from optimizer_energy_cases [of convergedOnce slopeField] 2 e
  have b: "optimizer_energy convergedOnce = Fin (- (131 / 8000))" by simp
  from optimizer_energy_cases [of ?unknown _ _ _ testRegistry] 3
  have c: "optimizer_energy (snd (optimizer_setup testRegistry ?unknown)) = Fin 0" by blast
  from optimizer_energy_cases [of ?broken _ _ _ testRegistry
      "\<lparr>atomPositions = [(Fin (131 / 400), Fin 0, Fin 0)]\<rparr>" brokenPlugin] 4 e5
  have d: "optimizer_energy (snd (optimizer_setup testRegistry ?broken)) = Fin 5" by simp
  from optimizer_energy_cases [of ?gone slopeField _ _ testRegistry] 5 e g
  have f: "optimizer_energy (snd (optimizer_setup testRegistry ?gone)) = Fin (- (131 / 8000))"
    by simp
  from a b c d f show ?thesis by blast
qed

section \<open>The accessors\<close>

text \<open>
  C10. \<^verbatim>\<open>setForceField(name)\<close> returns true for every name and only records the name: the
  rest of the state is as it was. Whether the name is registered is looked at by the next
  \<^verbatim>\<open>setup()\<close>, which fails with the message for an unsupported force field when the
  molecule is there and the registry does not know the name.
\<close>

theorem setForceField_true:
  "fst (setForceField name d) = True
   \<and> snd (setForceField name d) = d\<lparr>d_forceFieldName := name\<rparr>
   \<and> forceField (snd (setForceField name d)) = name
   \<and> (d_molecule d \<noteq> None \<and> create name = None \<longrightarrow>
        fst (optimizer_setup create (snd (setForceField name d))) = False
        \<and> errorString (snd (optimizer_setup create (snd (setForceField name d))))
            = ''Force field '' @ [CHR 0x27] @ name @ [CHR 0x27] @ '' is not supported.'')"
  by (auto simp: setForceField_def forceField_def optimizer_setup_def errorString_def)

theorem setForceField_true_witness:
  "fst (setForceField ''nonexistent'' (MoleculeGeometryOptimizer (Some atOrigin) 0)) = True
   \<and> fst (optimizer_setup testRegistry
        (snd (setForceField ''nonexistent'' (MoleculeGeometryOptimizer (Some atOrigin) 0)))) = False
   \<and> errorString (snd (optimizer_setup testRegistry
        (snd (setForceField ''nonexistent'' (MoleculeGeometryOptimizer (Some atOrigin) 0)))))
       = ''Force field '' @ [CHR 0x27] @ ''nonexistent'' @ [CHR 0x27] @ '' is not supported.''"
  using setForceField_true [of "''nonexistent''" "MoleculeGeometryOptimizer (Some atOrigin) 0"
      testRegistry]
  by (simp add: MoleculeGeometryOptimizer_def testRegistry_def setForceField_def)

end
